theory Spec2Isabelle
  imports Complex_Main
begin

section \<open>JavaScript values\<close>

text \<open>
  The persistence layer of the receipt application (\<^verbatim>\<open>services/database.ts\<close>,
  \<^verbatim>\<open>store/receiptStore.ts\<close>, \<^verbatim>\<open>services/geminiVision.ts\<close> and the two screens that
  call them) is embedded as pure functions over an explicit backend state.

  A JavaScript number is modelled by an exact rational: rounding, infinities and
  \<^verbatim>\<open>NaN\<close> of IEEE doubles are not represented (where the source can produce
  \<^verbatim>\<open>NaN\<close> from a conversion, the conversion returns \<open>None\<close>). A property that is
  \<^verbatim>\<open>undefined\<close> or absent is \<open>None\<close>. An instant of time (an ISO timestamp string,
  whose lexicographic order is the chronological one) is a natural number.
\<close>

type_synonym number = rat
type_synonym instant = nat

datatype error = Error string | TypeError string | SyntaxError string

text \<open>The result of awaiting a promise: rejected with an error, or resolved.\<close>

type_synonym 'a promise = "error + 'a"

text \<open>\<^verbatim>\<open>imageUri\<close> is the one field whose \<^verbatim>\<open>null\<close> and \<^verbatim>\<open>undefined\<close> the source tells apart.\<close>

datatype 'a nullable = Undefined | Null | Defined 'a

text \<open>Truthiness and \<^verbatim>\<open>a || b\<close> on optional numbers and strings.\<close>

definition truthy_num :: "number option \<Rightarrow> bool" where
  "truthy_num a = (case a of None \<Rightarrow> False | Some n \<Rightarrow> n \<noteq> 0)"

definition truthy_str :: "string option \<Rightarrow> bool" where
  "truthy_str a = (case a of None \<Rightarrow> False | Some s \<Rightarrow> s \<noteq> [])"

definition or_number :: "number option \<Rightarrow> number option \<Rightarrow> number option" where
  "or_number a b = (if truthy_num a then a else b)"

definition or_string :: "string option \<Rightarrow> string option \<Rightarrow> string option" where
  "or_string a b = (if truthy_str a then a else b)"

definition num_or :: "number option \<Rightarrow> number \<Rightarrow> number" where
  "num_or a d = (case a of None \<Rightarrow> d | Some n \<Rightarrow> if n \<noteq> 0 then n else d)"

definition str_or :: "string option \<Rightarrow> string \<Rightarrow> string" where
  "str_or a d = (case a of None \<Rightarrow> d | Some s \<Rightarrow> if s \<noteq> [] then s else d)"

text \<open>ASCII white space, \<^verbatim>\<open>String.prototype.trim\<close>, \<^verbatim>\<open>toLowerCase\<close> and
  \<^verbatim>\<open>String.prototype.includes\<close>; strings are byte lists, so only the ASCII range is interpreted.\<close>

definition is_space :: "char \<Rightarrow> bool" where
  "is_space c = (c \<in> set [CHR '' '', CHR 0x09, CHR 0x0A, CHR 0x0B, CHR 0x0C, CHR 0x0D])"

definition trim :: "string \<Rightarrow> string" where
  "trim s = rev (dropWhile is_space (rev (dropWhile is_space s)))"

definition code :: "char \<Rightarrow> nat" where
  "code c = of_char c"

definition is_digit :: "char \<Rightarrow> bool" where
  "is_digit c = (48 \<le> code c \<and> code c \<le> 57)"

definition is_upper :: "char \<Rightarrow> bool" where
  "is_upper c = (65 \<le> code c \<and> code c \<le> 90)"

definition is_lower :: "char \<Rightarrow> bool" where
  "is_lower c = (97 \<le> code c \<and> code c \<le> 122)"

definition digit_val :: "char \<Rightarrow> nat" where
  "digit_val c = code c - 48"

definition hex_val :: "char \<Rightarrow> nat option" where
  "hex_val c =
     (if is_digit c then Some (digit_val c)
      else if 97 \<le> code c \<and> code c \<le> 102 then Some (code c - 87)
      else if 65 \<le> code c \<and> code c \<le> 70 then Some (code c - 55)
      else None)"

definition toLowerCase :: "string \<Rightarrow> string" where
  "toLowerCase s = map (\<lambda>c. if is_upper c then char_of (code c + 32) else c) s"

fun includes_str :: "string \<Rightarrow> string \<Rightarrow> bool" where
  "includes_str [] sub = (sub = [])"
| "includes_str (c # cs) sub = (take (length sub) (c # cs) = sub \<or> includes_str cs sub)"

text \<open>\<^verbatim>\<open>Number.prototype.toString\<close> on a row id, and \<^verbatim>\<open>parseInt\<close> with no radix:
  leading white space, a sign, a \<^verbatim>\<open>0x\<close> prefix, then the longest run of digits;
  \<open>None\<close> is \<^verbatim>\<open>NaN\<close>.\<close>

fun show_nat :: "nat \<Rightarrow> string" where
  "show_nat n =
     (if n < 10 then [char_of (48 + n)]
      else show_nat (n div 10) @ [char_of (48 + n mod 10)])"

definition show_int :: "int \<Rightarrow> string" where
  "show_int i = (if i < 0 then CHR ''-'' # show_nat (nat (- i)) else show_nat (nat i))"

definition parseInt :: "string \<Rightarrow> int option" where
  "parseInt s =
     (let t = dropWhile is_space s;
          neg = (t \<noteq> [] \<and> hd t = CHR ''-'');
          u = (if t \<noteq> [] \<and> (hd t = CHR ''-'' \<or> hd t = CHR ''+'') then tl t else t);
          hex = (take 2 u = ''0x'' \<or> take 2 u = ''0X'');
          v = (if hex then drop 2 u else u);
          ds = (if hex then takeWhile (\<lambda>c. hex_val c \<noteq> None) v else takeWhile is_digit v);
          m = (if hex then foldl (\<lambda>a c. a * 16 + the (hex_val c)) 0 ds
               else foldl (\<lambda>a c. a * 10 + digit_val c) 0 ds)
      in if ds = [] then None else Some (if neg then - int m else int m))"

section \<open>Data model (\<^verbatim>\<open>types/receipt.ts\<close>)\<close>

record ReceiptItem =
  id_item :: string
  name :: string
  quantity :: number
  price :: number
  category_item :: "string option"

text \<open>
  \<open>receipt_data\<close> holds the properties that the adapter reads from a payload typed
  \<^verbatim>\<open>any\<close> or \<^verbatim>\<open>Partial<Receipt>\<close>; \<open>Receipt\<close> extends it with the properties that
  only a stored or returned record has. \<open>total_legacy\<close> is the property \<^verbatim>\<open>total\<close>.
\<close>

record receipt_data =
  merchantName :: "string option"
  store :: "string option"
  date :: "string option"
  totalAmount :: "number option"
  total_legacy :: "number option"
  taxAmount :: "number option"
  tax :: "number option"
  imageUri :: "string nullable"
  category :: "string option"
  items :: "ReceiptItem list option"

record Receipt = receipt_data +
  id_receipt :: string
  subtotal :: "number option"
  createdAt :: "instant option"
  updatedAt :: "instant option"

record ChatMessage =
  id_message :: string
  text_message :: string
  isUser :: bool
  timestamp :: string

section \<open>Backends\<close>

text \<open>
  The document-blob backend keeps one value under the key \<^verbatim>\<open>receipts\<close>: absent
  (\<^verbatim>\<open>getItem\<close> yields \<^verbatim>\<open>null\<close>), a text that \<^verbatim>\<open>JSON.parse\<close> rejects, or the
  serialisation of an array of records. \<open>responsive\<close> tells whether the calls of
  \<^verbatim>\<open>AsyncStorage\<close> resolve.
\<close>

datatype stored_json = Malformed | Parsed "Receipt list"

record web_state =
  responsive :: bool
  receipts_key :: "stored_json option"

text \<open>
  The relational backend: the two tables in row-id order, and the largest row id each
  \<^verbatim>\<open>AUTOINCREMENT\<close> key has handed out. \<open>reachable\<close> tells whether
  \<^verbatim>\<open>ensureDatabaseConnection\<close> obtains a handle (the cached handle and the single
  retry are folded into this flag). Columns that clash with a property name carry the
  prefix \<open>row_\<close> or \<open>irow_\<close>.
\<close>

record receipt_row =
  row_id :: int
  merchant_name :: string
  row_date :: string
  total_amount :: number
  tax_amount :: "number option"
  image_uri :: "string option"
  row_category :: "string option"
  created_at :: instant
  updated_at :: instant

record item_row =
  irow_id :: int
  receipt_id :: int
  irow_name :: string
  irow_quantity :: number
  irow_price :: number
  irow_category :: "string option"

record mobile_state =
  reachable :: bool
  receipts_tbl :: "receipt_row list"
  receipt_items_tbl :: "item_row list"
  receipts_seq :: int
  receipt_items_seq :: int

text \<open>\<^verbatim>\<open>Platform.OS === 'web'\<close> selects the variant once per process.\<close>

datatype backend = Web web_state | Mobile mobile_state

text \<open>What a call reads from its surroundings: the clock (\<^verbatim>\<open>new Date()\<close>,
  \<^verbatim>\<open>CURRENT_TIMESTAMP\<close>), today's ISO date, and the rendering of
  \<^verbatim>\<open>Date.now() + Math.random()\<close>.\<close>

record env =
  now :: instant
  today :: string
  new_id :: string

section \<open>Storage adapter (\<^verbatim>\<open>services/database.ts\<close>)\<close>

subsection \<open>Primitives of the two backends\<close>

definition AsyncStorage_getItem :: "web_state \<Rightarrow> stored_json option promise" where
  "AsyncStorage_getItem w =
     (if responsive w then Inr (receipts_key w) else Inl (Error ''AsyncStorage unavailable''))"

definition AsyncStorage_setItem :: "web_state \<Rightarrow> Receipt list \<Rightarrow> (unit promise \<times> web_state)" where
  "AsyncStorage_setItem w rs =
     (if responsive w then (Inr (), w\<lparr>receipts_key := Some (Parsed rs)\<rparr>)
      else (Inl (Error ''AsyncStorage unavailable''), w))"

text \<open>\<^verbatim>\<open>receiptsJson ? JSON.parse(receiptsJson) : []\<close>\<close>

definition parse_receipts :: "stored_json option \<Rightarrow> Receipt list promise" where
  "parse_receipts j =
     (case j of
        None \<Rightarrow> Inr []
      | Some Malformed \<Rightarrow> Inl (SyntaxError ''Unexpected token'')
      | Some (Parsed rs) \<Rightarrow> Inr rs)"

definition read_receipts :: "web_state \<Rightarrow> Receipt list promise" where
  "read_receipts w =
     (case AsyncStorage_getItem w of Inl e \<Rightarrow> Inl e | Inr j \<Rightarrow> parse_receipts j)"

definition ensureDatabaseConnection :: "mobile_state \<Rightarrow> unit promise" where
  "ensureDatabaseConnection m =
     (if reachable m then Inr ()
      else Inl (Error ''Failed to establish database connection after retries''))"

text \<open>\<^verbatim>\<open>SELECT * FROM receipts ORDER BY created_at DESC\<close>: the later timestamp
  first, rows with equal timestamps in row order (the sort is stable).\<close>

definition select_receipts_desc :: "mobile_state \<Rightarrow> receipt_row list" where
  "select_receipts_desc m = sort_key (\<lambda>r. - int (created_at r)) (receipts_tbl m)"

text \<open>\<^verbatim>\<open>SELECT * FROM receipts WHERE id = ?\<close> through \<^verbatim>\<open>getFirstSync\<close>; a
  \<^verbatim>\<open>NaN\<close> parameter matches no row.\<close>

definition select_receipt :: "mobile_state \<Rightarrow> int option \<Rightarrow> receipt_row option" where
  "select_receipt m k =
     (case k of None \<Rightarrow> None | Some i \<Rightarrow> find (\<lambda>r. row_id r = i) (receipts_tbl m))"

text \<open>\<^verbatim>\<open>SELECT * FROM receipt_items WHERE receipt_id = ?\<close>, each row mapped to an item.\<close>

definition item_of_row :: "item_row \<Rightarrow> ReceiptItem" where
  "item_of_row i =
     \<lparr>id_item = show_int (irow_id i), name = irow_name i, quantity = irow_quantity i,
      price = irow_price i, category_item = irow_category i\<rparr>"

definition select_items :: "mobile_state \<Rightarrow> int \<Rightarrow> ReceiptItem list" where
  "select_items m rid =
     map item_of_row (filter (\<lambda>i. receipt_id i = rid) (receipt_items_tbl m))"

definition receipt_of_row :: "mobile_state \<Rightarrow> receipt_row \<Rightarrow> Receipt" where
  "receipt_of_row m r =
     \<lparr>merchantName = Some (merchant_name r), store = None, date = Some (row_date r),
      totalAmount = Some (total_amount r), total_legacy = None,
      taxAmount = tax_amount r, tax = None,
      imageUri = (case image_uri r of None \<Rightarrow> Null | Some u \<Rightarrow> Defined u),
      category = row_category r, items = Some (select_items m (row_id r)),
      id_receipt = show_int (row_id r), subtotal = None,
      createdAt = Some (created_at r), updatedAt = Some (updated_at r)\<rparr>"

text \<open>An \<^verbatim>\<open>AUTOINCREMENT\<close> key: one more than the largest id ever used.\<close>

definition next_rowid :: "int \<Rightarrow> int list \<Rightarrow> int" where
  "next_rowid seq ids = fold max ids seq + 1"

text \<open>\<^verbatim>\<open>INSERT INTO receipt_items ...\<close> with the defaults of the call site:
  \<^verbatim>\<open>item.name || 'Unknown Item'\<close>, \<^verbatim>\<open>item.quantity || 1\<close>,
  \<^verbatim>\<open>Number(item.price || 0)\<close> (the price itself, also when it is 0) and
  \<^verbatim>\<open>item.category || 'Other'\<close>.\<close>

definition insert_item :: "int \<Rightarrow> mobile_state \<Rightarrow> ReceiptItem \<Rightarrow> mobile_state" where
  "insert_item rid m it =
     (let k = next_rowid (receipt_items_seq m) (map irow_id (receipt_items_tbl m))
      in m\<lparr>receipt_items_tbl := receipt_items_tbl m @
              [\<lparr>irow_id = k, receipt_id = rid,
                irow_name = (if name it \<noteq> [] then name it else ''Unknown Item''),
                irow_quantity = (if quantity it \<noteq> 0 then quantity it else 1),
                irow_price = price it,
                irow_category = Some (str_or (category_item it) ''Other'')\<rparr>],
           receipt_items_seq := k\<rparr>)"

subsection \<open>Reads\<close>

definition getAllReceiptsFromDatabase_try :: "backend \<Rightarrow> Receipt list promise" where
  "getAllReceiptsFromDatabase_try db =
     (case db of
        Web w \<Rightarrow> read_receipts w
      | Mobile m \<Rightarrow>
          (case ensureDatabaseConnection m of
             Inl e \<Rightarrow> Inl e
           | Inr _ \<Rightarrow> Inr (map (receipt_of_row m) (select_receipts_desc m))))"

text \<open>The \<^verbatim>\<open>catch\<close> of \<^verbatim>\<open>getAllReceiptsFromDatabase\<close> logs and returns \<^verbatim>\<open>[]\<close>.\<close>

definition getAllReceiptsFromDatabase :: "backend \<Rightarrow> Receipt list promise" where
  "getAllReceiptsFromDatabase db =
     (case getAllReceiptsFromDatabase_try db of Inl e \<Rightarrow> Inr [] | Inr rs \<Rightarrow> Inr rs)"

definition getReceiptById_try :: "backend \<Rightarrow> string \<Rightarrow> Receipt option promise" where
  "getReceiptById_try db i =
     (case db of
        Web w \<Rightarrow>
          (case read_receipts w of
             Inl e \<Rightarrow> Inl e
           | Inr rs \<Rightarrow> Inr (find (\<lambda>r. id_receipt r = i) rs))
      | Mobile m \<Rightarrow>
          (case ensureDatabaseConnection m of
             Inl e \<Rightarrow> Inl e
           | Inr _ \<Rightarrow> Inr (map_option (receipt_of_row m) (select_receipt m (parseInt i)))))"

text \<open>The \<^verbatim>\<open>catch\<close> of \<^verbatim>\<open>getReceiptById\<close> logs and returns \<^verbatim>\<open>null\<close>.\<close>

definition getReceiptById :: "backend \<Rightarrow> string \<Rightarrow> Receipt option promise" where
  "getReceiptById db i =
     (case getReceiptById_try db i of Inl e \<Rightarrow> Inr None | Inr r \<Rightarrow> Inr r)"

subsection \<open>Writes\<close>

text \<open>\<^verbatim>\<open>receiptData.imageUri || null\<close>, as the column or property it becomes.\<close>

definition imageUri_or_null :: "string nullable \<Rightarrow> string option" where
  "imageUri_or_null u = (case u of Defined s \<Rightarrow> if s \<noteq> [] then Some s else None | _ \<Rightarrow> None)"

definition nullable_of :: "string option \<Rightarrow> string nullable" where
  "nullable_of u = (case u of None \<Rightarrow> Null | Some s \<Rightarrow> Defined s)"

text \<open>
  \<^verbatim>\<open>saveReceiptToDatabase\<close>: defaults for every field, then an append to the blob or an
  \<^verbatim>\<open>INSERT\<close> of the receipt followed by one \<^verbatim>\<open>INSERT\<close> per item. The surrounding
  \<^verbatim>\<open>try/catch\<close> logs and rethrows. The two readings of the clock for
  \<^verbatim>\<open>createdAt\<close> and \<^verbatim>\<open>updatedAt\<close> are one instant.
\<close>

definition saveReceiptToDatabase :: "env \<Rightarrow> receipt_data \<Rightarrow> backend \<Rightarrow> unit promise \<times> backend" where
  "saveReceiptToDatabase e receiptData db =
     (let merchantName' = str_or (merchantName receiptData) ''Unknown Store'';
          date' = str_or (date receiptData) (today e);
          totalAmount' = num_or (or_number (totalAmount receiptData) (total_legacy receiptData)) 0;
          taxAmount' = num_or (taxAmount receiptData) 0;
          imageUri' = imageUri_or_null (imageUri receiptData);
          category' = str_or (category receiptData) ''Other'';
          items' = (case items receiptData of None \<Rightarrow> [] | Some its \<Rightarrow> its)
      in case db of
           Web w \<Rightarrow>
             (case read_receipts w of
                Inl err \<Rightarrow> (Inl err, db)
              | Inr receipts \<Rightarrow>
                  (let newReceipt =
                         \<lparr>merchantName = Some merchantName', store = None, date = Some date',
                          totalAmount = Some totalAmount', total_legacy = None,
                          taxAmount = Some taxAmount', tax = None,
                          imageUri = nullable_of imageUri', category = Some category',
                          items = Some items', id_receipt = new_id e, subtotal = None,
                          createdAt = Some (now e), updatedAt = Some (now e)\<rparr>;
                       (res, w') = AsyncStorage_setItem w (receipts @ [newReceipt])
                   in (res, Web w')))
         | Mobile m \<Rightarrow>
             (case ensureDatabaseConnection m of
                Inl err \<Rightarrow> (Inl err, db)
              | Inr _ \<Rightarrow>
                  (let receiptId = next_rowid (receipts_seq m) (map row_id (receipts_tbl m));
                       m1 = m\<lparr>receipts_tbl := receipts_tbl m @
                                 [\<lparr>row_id = receiptId, merchant_name = merchantName',
                                   row_date = date', total_amount = totalAmount',
                                   tax_amount = Some taxAmount', image_uri = imageUri',
                                   row_category = Some category',
                                   created_at = now e, updated_at = now e\<rparr>],
                              receipts_seq := receiptId\<rparr>
                   in (Inr (), Mobile (foldl (insert_item receiptId) m1 items')))))"

text \<open>\<^verbatim>\<open>receipts.findIndex(receipt => receipt.id === id)\<close>\<close>

fun findIndex :: "('a \<Rightarrow> bool) \<Rightarrow> 'a list \<Rightarrow> nat option" where
  "findIndex P [] = None"
| "findIndex P (x # xs) = (if P x then Some 0 else map_option Suc (findIndex P xs))"

text \<open>
  \<^verbatim>\<open>updateReceiptInDatabase\<close>: the existing record is fetched first and supplies the
  fallback of every field; a missing record raises before anything is written. The blob
  variant overwrites the fields of the stored object (the spread keeps its other
  properties); the relational variant runs \<^verbatim>\<open>UPDATE\<close>, deletes the receipt's item
  rows and inserts the new ones.
\<close>

definition updateReceiptInDatabase ::
    "env \<Rightarrow> string \<Rightarrow> receipt_data \<Rightarrow> backend \<Rightarrow> unit promise \<times> backend" where
  "updateReceiptInDatabase e i receiptData db =
     (case getReceiptById db i of
        Inl err \<Rightarrow> (Inl err, db)
      | Inr None \<Rightarrow> (Inl (Error ''Receipt not found''), db)
      | Inr (Some existingReceipt) \<Rightarrow>
          (let merchantName' =
                 str_or (or_string (merchantName receiptData) (merchantName existingReceipt))
                   ''Unknown Store'';
               date' = str_or (or_string (date receiptData) (date existingReceipt)) (today e);
               totalAmount' =
                 num_or (or_number (or_number (totalAmount receiptData) (total_legacy receiptData))
                           (totalAmount existingReceipt)) 0;
               taxAmount' =
                 num_or (or_number (or_number (taxAmount receiptData) (tax receiptData))
                           (taxAmount existingReceipt)) 0;
               imageUri' = (if imageUri receiptData \<noteq> Undefined then imageUri receiptData
                            else imageUri existingReceipt);
               category' =
                 str_or (or_string (category receiptData) (category existingReceipt)) ''Other'';
               items' = (case items receiptData of
                           Some its \<Rightarrow> its
                         | None \<Rightarrow> (case items existingReceipt of Some its \<Rightarrow> its | None \<Rightarrow> []))
           in case db of
                Web w \<Rightarrow>
                  (case read_receipts w of
                     Inl err \<Rightarrow> (Inl err, db)
                   | Inr receipts \<Rightarrow>
                       (case findIndex (\<lambda>r. id_receipt r = i) receipts of
                          None \<Rightarrow> (Inr (), db)
                        | Some index \<Rightarrow>
                            (let (res, w') = AsyncStorage_setItem w
                                   (receipts[index := (receipts ! index)
                                      \<lparr>merchantName := Some merchantName', date := Some date',
                                       totalAmount := Some totalAmount',
                                       taxAmount := Some taxAmount', imageUri := imageUri',
                                       category := Some category', items := Some items',
                                       updatedAt := Some (now e)\<rparr>])
                             in (res, Web w'))))
              | Mobile m \<Rightarrow>
                  (case ensureDatabaseConnection m of
                     Inl err \<Rightarrow> (Inl err, db)
                   | Inr _ \<Rightarrow>
                       (case parseInt i of
                          None \<Rightarrow> (Inl (Error ''NOT NULL constraint failed''), db)
                        | Some k \<Rightarrow>
                            (let m1 = m\<lparr>receipts_tbl :=
                                         map (\<lambda>r. if row_id r = k
                                                  then r\<lparr>merchant_name := merchantName',
                                                         row_date := date',
                                                         total_amount := totalAmount',
                                                         tax_amount := Some taxAmount',
                                                         image_uri := (case imageUri' of
                                                                         Defined u \<Rightarrow> Some u
                                                                       | _ \<Rightarrow> None),
                                                         row_category := Some category',
                                                         updated_at := now e\<rparr>
                                                  else r) (receipts_tbl m)\<rparr>;
                                 m2 = m1\<lparr>receipt_items_tbl :=
                                          filter (\<lambda>it. receipt_id it \<noteq> k) (receipt_items_tbl m1)\<rparr>
                             in (Inr (), Mobile (foldl (insert_item k) m2 items')))))))"


subsection \<open>Insights aggregator\<close>

record category_total =
  category_name :: string
  total_c :: number
  count_c :: nat

record insights =
  totalSpending :: number
  categoryBreakdown :: "(string \<times> number) list"
  recentTransactions :: "Receipt list"
  totalReceipts :: nat
  averageSpending :: number
  topCategories :: "category_total list"
  monthlySpending :: "(string \<times> number) list"

text \<open>
  \<^verbatim>\<open>categoryBreakdown\<close> is a JavaScript object used as a dictionary: a list of
  key/value pairs in creation order. \<^verbatim>\<open>Object.entries\<close> lists the keys that are array
  indices first, in ascending numeric order, then the other keys in creation order.
  An assignment to the key \<^verbatim>\<open>__proto__\<close> creates no property of the object: the value
  assigned there is a text, which the setter of the prototype ignores. The names of the
  other members of \<^verbatim>\<open>Object.prototype\<close> (\<^verbatim>\<open>constructor\<close>, \<^verbatim>\<open>toString\<close>, ...) are
  treated as ordinary keys, where the source would store a text.
\<close>

definition add_to_category :: "(string \<times> number) list \<Rightarrow> string \<Rightarrow> number \<Rightarrow> (string \<times> number) list" where
  "add_to_category obj k v =
     (if k = ''__proto__'' then obj
      else case map_of obj k of
             None \<Rightarrow> obj @ [(k, 0 + v)]
           | Some _ \<Rightarrow> map (\<lambda>(k', v'). if k' = k then (k', v' + v) else (k', v')) obj)"

definition decimal_value :: "string \<Rightarrow> nat" where
  "decimal_value s = foldl (\<lambda>a c. a * 10 + digit_val c) 0 s"

definition is_array_index :: "string \<Rightarrow> bool" where
  "is_array_index s =
     (s \<noteq> [] \<and> list_all is_digit s \<and> (s = ''0'' \<or> hd s \<noteq> CHR ''0'')
      \<and> decimal_value s < 4294967295)"

definition Object_entries :: "(string \<times> number) list \<Rightarrow> (string \<times> number) list" where
  "Object_entries obj =
     sort_key (\<lambda>kv. decimal_value (fst kv)) (filter (\<lambda>kv. is_array_index (fst kv)) obj)
     @ filter (\<lambda>kv. \<not> is_array_index (fst kv)) obj"

text \<open>The body of \<^verbatim>\<open>getReceiptInsights\<close> after the list has been read;
  \<^verbatim>\<open>receipt.items.forEach\<close> raises on a record without \<^verbatim>\<open>items\<close>.\<close>

fun all_items :: "Receipt list \<Rightarrow> ReceiptItem list promise" where
  "all_items [] = Inr []"
| "all_items (r # rs) =
     (case items r of
        None \<Rightarrow> Inl (TypeError ''Cannot read properties of undefined'')
      | Some its \<Rightarrow> (case all_items rs of Inl e \<Rightarrow> Inl e | Inr rest \<Rightarrow> Inr (its @ rest)))"

definition insights_of :: "Receipt list \<Rightarrow> insights promise" where
  "insights_of receipts =
     (let totalSpending' = foldl (\<lambda>sum receipt. sum + num_or (totalAmount receipt) 0) 0 receipts
      in case all_items receipts of
           Inl e \<Rightarrow> Inl e
         | Inr its \<Rightarrow>
             (let categoryBreakdown' =
                    foldl (\<lambda>obj item.
                             add_to_category obj (str_or (category_item item) ''Other'') (price item))
                      [] its
              in Inr \<lparr>totalSpending = totalSpending',
                      categoryBreakdown = categoryBreakdown',
                      recentTransactions = take 5 receipts,
                      totalReceipts = length receipts,
                      averageSpending =
                        (if length receipts > 0 then totalSpending' / of_nat (length receipts) else 0),
                      topCategories =
                        sort_key (\<lambda>c. - total_c c)
                          (map (\<lambda>(c, t).
                                  \<lparr>category_name = c, total_c = t,
                                   count_c = length (filter (\<lambda>item. str_or (category_item item) ''Other'' = c) its)\<rparr>)
                             (Object_entries categoryBreakdown')),
                      monthlySpending = []\<rparr>))"

definition zero_insights :: insights where
  "zero_insights =
     \<lparr>totalSpending = 0, categoryBreakdown = [], recentTransactions = [], totalReceipts = 0,
      averageSpending = 0, topCategories = [], monthlySpending = []\<rparr>"

text \<open>\<^verbatim>\<open>getReceiptInsights\<close>: any error of the body is caught and answered with zeros.\<close>

definition getReceiptInsights :: "backend \<Rightarrow> insights promise" where
  "getReceiptInsights db =
     (case getAllReceiptsFromDatabase db of
        Inl e \<Rightarrow> Inr zero_insights
      | Inr receipts \<Rightarrow>
          (case insights_of receipts of Inl e \<Rightarrow> Inr zero_insights | Inr ins \<Rightarrow> Inr ins))"

section \<open>Reconciling store (\<^verbatim>\<open>store/receiptStore.ts\<close>)\<close>

text \<open>The state of the store; its snapshot persistence is outside the model.\<close>

record ReceiptState =
  receipts :: "Receipt list"
  chatMessages :: "ChatMessage list"
  isLoading :: bool
  error :: "string option"

definition loadReceipts :: "backend \<Rightarrow> ReceiptState \<Rightarrow> unit promise \<times> ReceiptState" where
  "loadReceipts db st =
     (let st1 = st\<lparr>isLoading := True, error := None\<rparr>;
          st2 = (case getAllReceiptsFromDatabase db of
                   Inr rs \<Rightarrow> st1\<lparr>receipts := rs\<rparr>
                 | Inl e \<Rightarrow> st1\<lparr>error := Some ''Failed to load receipts''\<rparr>)
      in (Inr (), st2\<lparr>isLoading := False\<rparr>))"

text \<open>The shared shape of the three mutations: the write, then the reload; a failure
  records the message and is thrown again; \<^verbatim>\<open>finally\<close> clears the flag.\<close>

definition write_then_reload ::
    "string \<Rightarrow> (backend \<Rightarrow> unit promise \<times> backend) \<Rightarrow> backend \<Rightarrow> ReceiptState
       \<Rightarrow> unit promise \<times> backend \<times> ReceiptState" where
  "write_then_reload msg write db st1 =
     (case write db of
        (Inl err, db') \<Rightarrow> (Inl err, db', st1\<lparr>error := Some msg, isLoading := False\<rparr>)
      | (Inr _, db') \<Rightarrow>
          (case loadReceipts db' st1 of
             (Inl err, st2) \<Rightarrow> (Inl err, db', st2\<lparr>error := Some msg, isLoading := False\<rparr>)
           | (Inr _, st2) \<Rightarrow> (Inr (), db', st2\<lparr>isLoading := False\<rparr>)))"

definition addReceipt ::
    "env \<Rightarrow> Receipt \<Rightarrow> backend \<Rightarrow> ReceiptState \<Rightarrow> unit promise \<times> backend \<times> ReceiptState" where
  "addReceipt e receipt db st =
     (let st1 = st\<lparr>isLoading := True, error := None\<rparr>;
          totalAmount0 = or_number (totalAmount receipt) (total_legacy receipt);
          totalAmount1 =
            (case items receipt of
               Some its \<Rightarrow>
                 if \<not> truthy_num totalAmount0 \<and> length its > 0
                 then Some (foldl (\<lambda>sum item. sum + price item * quantity item) 0 its)
                 else totalAmount0
             | None \<Rightarrow> totalAmount0)
      in case items receipt of
           None \<Rightarrow>
             (Inl (TypeError ''Cannot read properties of undefined''), db,
              st1\<lparr>error := Some ''Failed to save receipt'', isLoading := False\<rparr>)
         | Some its \<Rightarrow>
             write_then_reload ''Failed to save receipt''
               (saveReceiptToDatabase e
                  \<lparr>merchantName =
                     Some (str_or (or_string (merchantName receipt) (store receipt)) ''Unknown Store''),
                   store = None,
                   date = date receipt,
                   totalAmount = Some (num_or totalAmount1 0),
                   total_legacy = None,
                   taxAmount = Some (num_or (or_number (taxAmount receipt) (tax receipt)) 0),
                   tax = None,
                   imageUri = imageUri receipt,
                   category = None,
                   items = Some (map (\<lambda>item. item\<lparr>category_item :=
                                        Some (str_or (category_item item) ''Other'')\<rparr>) its)\<rparr>)
               db st1)"

definition updateReceipt ::
    "env \<Rightarrow> string \<Rightarrow> receipt_data \<Rightarrow> backend \<Rightarrow> ReceiptState
       \<Rightarrow> unit promise \<times> backend \<times> ReceiptState" where
  "updateReceipt e i updatedReceipt db st =
     write_then_reload ''Failed to update receipt''
       (updateReceiptInDatabase e i updatedReceipt) db (st\<lparr>isLoading := True, error := None\<rparr>)"


text \<open>Query methods over the in-memory list.\<close>

definition getReceiptById_store :: "ReceiptState \<Rightarrow> string \<Rightarrow> Receipt option" where
  "getReceiptById_store st i = find (\<lambda>receipt. id_receipt receipt = i) (receipts st)"

definition getTotalSpending :: "ReceiptState \<Rightarrow> number" where
  "getTotalSpending st =
     foldl (\<lambda>total' receipt.
              total' + num_or (or_number (totalAmount receipt) (total_legacy receipt)) 0)
       0 (receipts st)"

section \<open>Edit screen (\<^verbatim>\<open>app/receipt/edit/[id].tsx\<close>)\<close>

text \<open>What the user is shown by \<^verbatim>\<open>Alert.alert(title, message)\<close>.\<close>

datatype alert = Alert string string

text \<open>
  \<^verbatim>\<open>handleSave\<close>: the two guards return after an alert; only then is the store's
  \<^verbatim>\<open>updateReceipt\<close> called, with the form whose items are the valid ones. The form is
  passed as the payload; the adapter reads the properties of \<open>receipt_data\<close> from it.
\<close>

definition handleSave ::
    "env \<Rightarrow> Receipt \<Rightarrow> backend \<Rightarrow> ReceiptState \<Rightarrow> alert promise \<times> backend \<times> ReceiptState" where
  "handleSave e receipt db st =
     (if trim (str_or (or_string (merchantName receipt) (store receipt)) []) = []
      then (Inr (Alert ''Error'' ''Please enter a store name''), db, st)
      else case items receipt of
             None \<Rightarrow> (Inl (TypeError ''Cannot read properties of undefined''), db, st)
           | Some its \<Rightarrow>
               (let validItems =
                      filter (\<lambda>item. name item \<noteq> [] \<and> trim (name item) \<noteq> [] \<and> price item > 0) its;
                    updatedReceipt = receipt\<lparr>items := Some validItems\<rparr>
                in if length validItems = 0
                   then (Inr (Alert ''Error'' ''Please add at least one valid item''), db, st)
                   else case updateReceipt e (id_receipt updatedReceipt)
                               (receipt_data.truncate updatedReceipt) db st of
                          (Inr _, db', st') \<Rightarrow>
                            (Inr (Alert ''Success'' ''Receipt updated successfully''), db', st')
                        | (Inl _, db', st') \<Rightarrow>
                            (Inr (Alert ''Error'' ''Failed to update receipt''), db', st')))"

section \<open>Vision extraction (\<^verbatim>\<open>services/geminiVision.ts\<close>)\<close>

text \<open>A value produced by \<^verbatim>\<open>JSON.parse\<close>.\<close>

datatype json =
    JNull | JBool bool | JNum number | JStr string | JArr "json list"
  | JObj "(string \<times> json) list"

text \<open>
  What \<^verbatim>\<open>extractReceiptData\<close> reads from outside the repository: whether the API key is
  set, the outcome of reading the image and of the model call (the response text),
  \<^verbatim>\<open>JSON.parse\<close>, and the conversions of the language on values that are not already
  of the target type (\<^verbatim>\<open>Number(v)\<close> on a string, array or object, with \<open>None\<close> for
  \<^verbatim>\<open>NaN\<close>; \<^verbatim>\<open>v.toString()\<close> on a value that is not a string).
\<close>

record vision_env =
  api_key :: bool
  image_base64 :: "string promise"
  response_text :: "string promise"
  JSON_parse :: "string \<Rightarrow> json option"
  to_number :: "json \<Rightarrow> number option"
  to_string :: "json \<Rightarrow> string"
  today_iso :: string

record ExtractedItem =
  name_x :: string
  price_x :: number
  quantity_x :: number
  category_x :: string

record ExtractedReceiptData =
  merchantName_x :: string
  date_x :: string
  totalAmount_x :: number
  taxAmount_x :: "number option"
  items_x :: "ExtractedItem list"

definition truthy :: "json option \<Rightarrow> bool" where
  "truthy v =
     (case v of
        None \<Rightarrow> False
      | Some JNull \<Rightarrow> False
      | Some (JBool b) \<Rightarrow> b
      | Some (JNum n) \<Rightarrow> n \<noteq> 0
      | Some (JStr s) \<Rightarrow> s \<noteq> []
      | Some _ \<Rightarrow> True)"

text \<open>Reading one of the named properties of a value that is not \<^verbatim>\<open>null\<close>.\<close>

definition get_prop :: "json \<Rightarrow> string \<Rightarrow> json option" where
  "get_prop v k = (case v of JObj kvs \<Rightarrow> map_of kvs k | _ \<Rightarrow> None)"

definition Number_js :: "vision_env \<Rightarrow> json option \<Rightarrow> number option" where
  "Number_js ve v =
     (case v of
        None \<Rightarrow> None
      | Some JNull \<Rightarrow> Some 0
      | Some (JBool b) \<Rightarrow> Some (if b then 1 else 0)
      | Some (JNum n) \<Rightarrow> Some n
      | Some w \<Rightarrow> to_number ve w)"

text \<open>\<^verbatim>\<open>(v || d).toString()\<close> for a property that should hold text. A truthy value that
  is not a string is rendered by the language's \<^verbatim>\<open>toString\<close>.\<close>

definition text_or :: "vision_env \<Rightarrow> json option \<Rightarrow> string \<Rightarrow> string" where
  "text_or ve v d =
     (if truthy v then (case v of Some (JStr s) \<Rightarrow> s | Some w \<Rightarrow> to_string ve w | None \<Rightarrow> d)
      else d)"

text \<open>\<^verbatim>\<open>responseText.trim().replace(/```json\n?|\n?```/g, '')\<close>\<close>

fun strip_fences :: "nat \<Rightarrow> string \<Rightarrow> string" where
  "strip_fences skip [] = []"
| "strip_fences (Suc skip) (c # cs) = strip_fences skip cs"
| "strip_fences 0 (c # cs) =
     (if take 7 (c # cs) = ''```json''
      then strip_fences (if take 1 (drop 6 cs) = [CHR 0x0A] then 7 else 6) cs
      else if take 4 (c # cs) = CHR 0x0A # ''```'' then strip_fences 3 cs
      else if take 3 (c # cs) = ''```'' then strip_fences 2 cs
      else c # strip_fences 0 cs)"

definition clean_response :: "string \<Rightarrow> string" where
  "clean_response responseText = strip_fences 0 (trim responseText)"

text \<open>
  The filter of the items: \<^verbatim>\<open>item && item.name && item.name !== null &&
  item.name.trim() !== ''\<close>. A truthy name that is not a string has no \<^verbatim>\<open>trim\<close>: the
  call raises, and the error is caught by the handler of the parse.
\<close>

fun filter_items :: "json list \<Rightarrow> json list promise" where
  "filter_items [] = Inr []"
| "filter_items (item # rest) =
     (if \<not> truthy (Some item) \<or> \<not> truthy (get_prop item ''name'') then filter_items rest
      else case get_prop item ''name'' of
             Some (JStr s) \<Rightarrow>
               (case filter_items rest of
                  Inl e \<Rightarrow> Inl e
                | Inr kept \<Rightarrow> Inr (if trim s \<noteq> [] then item # kept else kept))
           | _ \<Rightarrow> Inl (TypeError ''item.name.trim is not a function''))"

definition clean_item :: "vision_env \<Rightarrow> json \<Rightarrow> ExtractedItem" where
  "clean_item ve item =
     \<lparr>name_x = (case get_prop item ''name'' of Some (JStr s) \<Rightarrow> trim s | _ \<Rightarrow> []),
      price_x = num_or (Number_js ve (get_prop item ''price'')) 0,
      quantity_x = num_or (Number_js ve (get_prop item ''quantity'')) 1,
      category_x = text_or ve (get_prop item ''category'') ''other''\<rparr>"

text \<open>\<^verbatim>\<open>createFallbackReceiptData\<close>\<close>

definition createFallbackReceiptData :: "vision_env \<Rightarrow> ExtractedReceiptData" where
  "createFallbackReceiptData ve =
     \<lparr>merchantName_x = ''Unknown Store'', date_x = today_iso ve, totalAmount_x = 0,
      taxAmount_x = Some 0,
      items_x = [\<lparr>name_x = ''Item (please edit)'', price_x = 0, quantity_x = 1,
                  category_x = ''other''\<rparr>]\<rparr>"

text \<open>
  The body of the inner \<^verbatim>\<open>try\<close>, from the parsed value on. Writing a property of a
  primitive, or reading one of \<^verbatim>\<open>null\<close>, raises.
\<close>

definition validate_extracted :: "vision_env \<Rightarrow> json \<Rightarrow> ExtractedReceiptData promise" where
  "validate_extracted ve extractedData =
     (case extractedData of
        JNull \<Rightarrow> Inl (TypeError ''Cannot read properties of null'')
      | JBool _ \<Rightarrow> Inl (TypeError ''Cannot create property on boolean'')
      | JNum _ \<Rightarrow> Inl (TypeError ''Cannot create property on number'')
      | JStr _ \<Rightarrow> Inl (TypeError ''Cannot create property on string'')
      | _ \<Rightarrow>
        (let merchantName' = text_or ve (get_prop extractedData ''merchantName'') ''Unknown Store'';
             date' = text_or ve (get_prop extractedData ''date'') (today_iso ve);
             totalAmount' = num_or (Number_js ve (get_prop extractedData ''totalAmount'')) 0;
             taxAmount' = num_or (Number_js ve (get_prop extractedData ''taxAmount'')) 0;
             items0 = (case get_prop extractedData ''items'' of Some (JArr xs) \<Rightarrow> xs | _ \<Rightarrow> [])
         in case filter_items items0 of
              Inl e \<Rightarrow> Inl e
            | Inr kept \<Rightarrow>
                (let items1 = map (clean_item ve) kept;
                     items2 = (if length items1 = 0
                               then [\<lparr>name_x = ''Purchase'', price_x = totalAmount',
                                      quantity_x = 1, category_x = ''other''\<rparr>]
                               else items1)
                 in Inr \<lparr>merchantName_x = merchantName', date_x = date',
                         totalAmount_x = num_or (Some totalAmount') 0,
                         taxAmount_x = Some (num_or (Some taxAmount') 0),
                         items_x = items2\<rparr>)))"

text \<open>The recovery from the raw text when the inner \<^verbatim>\<open>try\<close> has failed:
  \<^verbatim>\<open>split('\n')\<close>, the first line that mentions the merchant and the first that
  mentions the total, \<^verbatim>\<open>replace(/[^a-zA-Z0-9\s]/g, '')\<close>, \<^verbatim>\<open>match(/\d+\.?\d*/g)\<close> and
  \<^verbatim>\<open>parseFloat\<close> of the last match.\<close>

fun split_lines :: "string \<Rightarrow> string \<Rightarrow> string list" where
  "split_lines cur [] = [rev cur]"
| "split_lines cur (c # cs) =
     (if c = CHR 0x0A then rev cur # split_lines [] cs else split_lines (c # cur) cs)"

text \<open>The matches of \<^verbatim>\<open>/\d+\.?\d*/g\<close>, left to right; \<open>phase\<close> is 0 outside a match,
  1 in its integer digits, 2 after its point.\<close>

fun match_amounts :: "string \<Rightarrow> nat \<Rightarrow> string \<Rightarrow> string list" where
  "match_amounts cur phase [] = (if phase = 0 then [] else [rev cur])"
| "match_amounts cur phase (c # cs) =
     (if is_digit c then match_amounts (c # cur) (if phase = 0 then 1 else phase) cs
      else if c = CHR ''.'' \<and> phase = 1 then match_amounts (c # cur) 2 cs
      else if phase = 0 then match_amounts [] 0 cs
      else rev cur # match_amounts [] 0 cs)"

text \<open>\<^verbatim>\<open>parseFloat\<close> on a match of that pattern: digits, then possibly a point and digits.\<close>

definition parseFloat :: "string \<Rightarrow> number" where
  "parseFloat s =
     (let ip = takeWhile is_digit s;
          fp = takeWhile is_digit (drop (Suc (length ip)) s)
      in of_nat (decimal_value ip) + of_nat (decimal_value fp) / 10 ^ length fp)"

definition recover_from_text :: "vision_env \<Rightarrow> string \<Rightarrow> ExtractedReceiptData" where
  "recover_from_text ve responseText =
     (let fallbackData = createFallbackReceiptData ve;
          lines = split_lines [] responseText;
          merchantMatch = find (\<lambda>line. includes_str (toLowerCase line) ''merchant'') lines;
          totalMatch = find (\<lambda>line. includes_str (toLowerCase line) ''total'') lines;
          fallbackData1 =
            (case merchantMatch of
               None \<Rightarrow> fallbackData
             | Some line \<Rightarrow>
                 (let merchant = trim (filter (\<lambda>c. is_lower c \<or> is_upper c \<or> is_digit c \<or> is_space c) line)
                  in if merchant \<noteq> [] then fallbackData\<lparr>merchantName_x := merchant\<rparr>
                     else fallbackData));
          fallbackData2 =
            (case totalMatch of
               None \<Rightarrow> fallbackData1
             | Some line \<Rightarrow>
                 (let amounts = match_amounts [] 0 line
                  in if amounts \<noteq> [] then fallbackData1\<lparr>totalAmount_x := parseFloat (last amounts)\<rparr>
                     else fallbackData1))
      in fallbackData2)"

text \<open>
  \<^verbatim>\<open>extractReceiptData\<close>. The outer \<^verbatim>\<open>catch\<close> answers a missing key and a failed
  read or model call with the fallback record; the inner one answers a response that
  does not parse, or whose validation raises, with the record recovered from the text.
  The promise never rejects.
\<close>

definition extractReceiptData :: "vision_env \<Rightarrow> ExtractedReceiptData" where
  "extractReceiptData ve =
     (if \<not> api_key ve then createFallbackReceiptData ve
      else case image_base64 ve of
             Inl e \<Rightarrow> createFallbackReceiptData ve
           | Inr _ \<Rightarrow>
               (case response_text ve of
                  Inl e \<Rightarrow> createFallbackReceiptData ve
                | Inr responseText \<Rightarrow>
                    (case JSON_parse ve (clean_response responseText) of
                       None \<Rightarrow> recover_from_text ve responseText
                     | Some extractedData \<Rightarrow>
                         (case validate_extracted ve extractedData of
                            Inl e \<Rightarrow> recover_from_text ve responseText
                          | Inr result \<Rightarrow> result))))"

section \<open>Scan screen\<close>

text \<open>
  \<^verbatim>\<open>processReceiptImage\<close>: the extraction result as a \<open>Receipt\<close>. \<open>stamp\<close> is the
  rendering of \<^verbatim>\<open>Date.now()\<close>. The \<^verbatim>\<open>catch\<close> with its basic template is not
  reached, since the extraction never rejects.
\<close>

fun number_items :: "string \<Rightarrow> nat \<Rightarrow> ExtractedItem list \<Rightarrow> ReceiptItem list" where
  "number_items stamp index [] = []"
| "number_items stamp index (item # rest) =
     \<lparr>id_item = stamp @ ''-'' @ show_nat index, name = name_x item, quantity = quantity_x item,
      price = price_x item, category_item = Some (category_x item)\<rparr>
     # number_items stamp (Suc index) rest"

definition processReceiptImage :: "vision_env \<Rightarrow> string \<Rightarrow> string \<Rightarrow> Receipt" where
  "processReceiptImage ve stamp imageUri' =
     (let extractedData = extractReceiptData ve
      in \<lparr>merchantName = Some (merchantName_x extractedData),
          store = Some (merchantName_x extractedData),
          date = Some (date_x extractedData),
          totalAmount = Some (totalAmount_x extractedData),
          total_legacy = Some (totalAmount_x extractedData),
          taxAmount = taxAmount_x extractedData,
          tax = Some (num_or (taxAmount_x extractedData) 0),
          imageUri = Defined imageUri',
          category = Some ''Other'',
          items = Some (number_items stamp 0 (items_x extractedData)),
          id_receipt = stamp,
          subtotal = Some (max 0 (totalAmount_x extractedData - num_or (taxAmount_x extractedData) 0)),
          createdAt = None, updatedAt = None\<rparr>)"

section \<open>Observations and sample states\<close>

text \<open>The parts of the result of a mutation: what the promise settled with, the
  backend afterwards, the store afterwards.\<close>

abbreviation settled :: "'a \<times> 'b \<times> 'c \<Rightarrow> 'a" where
  "settled x \<equiv> fst x"

abbreviation backend_after :: "'a \<times> 'b \<times> 'c \<Rightarrow> 'b" where
  "backend_after x \<equiv> fst (snd x)"

abbreviation store_after :: "'a \<times> 'b \<times> 'c \<Rightarrow> 'c" where
  "store_after x \<equiv> snd (snd x)"

text \<open>An id resolves when the backend holds a record under it, whether or not the
  backend can be read at the moment.\<close>

definition resolves :: "backend \<Rightarrow> string \<Rightarrow> bool" where
  "resolves db i =
     (case db of
        Web w \<Rightarrow> (case receipts_key w of
                    Some (Parsed rs) \<Rightarrow> list_ex (\<lambda>r. id_receipt r = i) rs
                  | _ \<Rightarrow> False)
      | Mobile m \<Rightarrow> (case parseInt i of
                       Some k \<Rightarrow> list_ex (\<lambda>r. row_id r = k) (receipts_tbl m)
                     | None \<Rightarrow> False))"

text \<open>The total of the record written last: the last element of the blob's array, the
  last row of the table.\<close>

definition newest_total :: "backend \<Rightarrow> number option" where
  "newest_total db =
     (case db of
        Web w \<Rightarrow> (case receipts_key w of
                    Some (Parsed rs) \<Rightarrow> if rs = [] then None else totalAmount (last rs)
                  | _ \<Rightarrow> None)
      | Mobile m \<Rightarrow> if receipts_tbl m = [] then None
                    else Some (total_amount (last (receipts_tbl m))))"

text \<open>The write defaults of the relational variant, as the item read back shows them.\<close>

definition written_name :: "ReceiptItem \<Rightarrow> string" where
  "written_name it = (if name it \<noteq> [] then name it else ''Unknown Item'')"

definition written_quantity :: "ReceiptItem \<Rightarrow> number" where
  "written_quantity it = (if quantity it \<noteq> 0 then quantity it else 1)"

definition written_category :: "ReceiptItem \<Rightarrow> string option" where
  "written_category it = Some (str_or (category_item it) ''Other'')"

text \<open>What one receipt adds to \<^verbatim>\<open>getTotalSpending\<close>.\<close>

definition effective_total :: "Receipt \<Rightarrow> number" where
  "effective_total r =
     (if truthy_num (totalAmount r) then the (totalAmount r)
      else if truthy_num (total_legacy r) then the (total_legacy r)
      else 0)"

definition env0 :: env where
  "env0 = \<lparr>now = 1, today = ''2024-01-01'', new_id = ''1704067200000.25''\<rparr>"

definition env1 :: env where
  "env1 = \<lparr>now = 2, today = ''2024-01-02'', new_id = ''1704153600000.75''\<rparr>"

definition empty_web :: backend where
  "empty_web = Web \<lparr>responsive = True, receipts_key = None\<rparr>"

definition empty_mobile :: backend where
  "empty_mobile =
     Mobile \<lparr>reachable = True, receipts_tbl = [], receipt_items_tbl = [],
             receipts_seq = 0, receipt_items_seq = 0\<rparr>"

definition empty_store :: ReceiptState where
  "empty_store = \<lparr>receipts = [], chatMessages = [], isLoading = False, error = None\<rparr>"

definition no_fields :: receipt_data where
  "no_fields =
     \<lparr>merchantName = None, store = None, date = None, totalAmount = None,
      total_legacy = None, taxAmount = None, tax = None, imageUri = Undefined,
      category = None, items = None\<rparr>"

definition latte :: ReceiptItem where
  "latte = \<lparr>id_item = ''i1'', name = ''Latte'', quantity = 1, price = 9 / 2,
            category_item = None\<rparr>"

text \<open>An item as the edit screen adds it: the id is a rendering of \<^verbatim>\<open>Date.now()\<close>, and
  there is no category.\<close>

definition milk :: ReceiptItem where
  "milk = \<lparr>id_item = ''1704153600000'', name = ''Milk'', quantity = 2, price = 3,
           category_item = None\<rparr>"

text \<open>An item that carries a name, a quantity and a category.\<close>

definition tea :: ReceiptItem where
  "tea = \<lparr>id_item = ''1704153600001'', name = ''Tea'', quantity = 1, price = 2,
          category_item = Some ''Dining''\<rparr>"

text \<open>An item without its id, for comparing items up to the ids the backend assigns.\<close>

definition without_id :: "ReceiptItem \<Rightarrow> ReceiptItem" where
  "without_id it = it\<lparr>id_item := []\<rparr>"

text \<open>A draft without totals: merchant, date and items only.\<close>

definition draft_of :: "string \<Rightarrow> ReceiptItem list \<Rightarrow> Receipt" where
  "draft_of m its =
     \<lparr>merchantName = Some m, store = None, date = Some ''2024-01-01'', totalAmount = None,
      total_legacy = None, taxAmount = None, tax = None, imageUri = Undefined,
      category = None, items = Some its, id_receipt = ''draft'', subtotal = None,
      createdAt = None, updatedAt = None\<rparr>"

text \<open>A record of the older shape: \<^verbatim>\<open>store\<close>, \<^verbatim>\<open>total\<close> and \<^verbatim>\<open>tax\<close> only.\<close>

definition legacy_record :: Receipt where
  "legacy_record =
     \<lparr>merchantName = None, store = Some ''Old Shop'', date = Some ''2023-05-01'',
      totalAmount = None, total_legacy = Some 12, taxAmount = None, tax = Some 1,
      imageUri = Undefined, category = None, items = Some [latte], id_receipt = ''L1'',
      subtotal = Some 11, createdAt = None, updatedAt = None\<rparr>"

definition legacy_blob :: web_state where
  "legacy_blob = \<lparr>responsive = True, receipts_key = Some (Parsed [legacy_record])\<rparr>"

definition legacy_web :: backend where
  "legacy_web = Web legacy_blob"

definition down_web :: backend where
  "down_web = Web \<lparr>responsive = False, receipts_key = Some (Parsed [legacy_record])\<rparr>"

definition loaded_store :: ReceiptState where
  "loaded_store = \<lparr>receipts = [legacy_record], chatMessages = [], isLoading = False, error = None\<rparr>"

text \<open>A relational backend that holds one receipt, row 1, with one item, row 1.\<close>

definition one_receipt_tables :: mobile_state where
  "one_receipt_tables =
     \<lparr>reachable = True,
      receipts_tbl =
        [\<lparr>row_id = 1, merchant_name = ''Cafe X'', row_date = ''2024-01-01'',
          total_amount = 9 / 2, tax_amount = Some 0, image_uri = None,
          row_category = Some ''Other'', created_at = 1, updated_at = 1\<rparr>],
      receipt_items_tbl =
        [\<lparr>irow_id = 1, receipt_id = 1, irow_name = ''Latte'', irow_quantity = 1,
          irow_price = 9 / 2, irow_category = Some ''Other''\<rparr>],
      receipts_seq = 1, receipt_items_seq = 1\<rparr>"

definition mobile_one :: backend where
  "mobile_one = Mobile one_receipt_tables"

text \<open>Two model calls: a response that is not JSON and mentions a total, and a response
  that parses to a receipt without items.\<close>

definition ve_unparseable :: vision_env where
  "ve_unparseable =
     \<lparr>api_key = True, image_base64 = Inr ''AAAA'', response_text = Inr ''Total: 12.50'',
      JSON_parse = (\<lambda>s. None), to_number = (\<lambda>v. None), to_string = (\<lambda>v. []),
      today_iso = ''2024-01-01''\<rparr>"

definition ve_no_items :: vision_env where
  "ve_no_items =
     \<lparr>api_key = True, image_base64 = Inr ''AAAA'',
      response_text = Inr ''{\"merchantName\":\"Shop\",\"totalAmount\":7,\"items\":[]}'',
      JSON_parse = (\<lambda>s. Some (JObj [(''merchantName'', JStr ''Shop''),
                                     (''totalAmount'', JNum 7), (''items'', JArr [])])),
      to_number = (\<lambda>v. None), to_string = (\<lambda>v. []), today_iso = ''2024-01-01''\<rparr>"

definition ve_no_key :: vision_env where
  "ve_no_key = ve_no_items\<lparr>api_key := False\<rparr>"

text \<open>The receipt that a listing of \<open>mobile_one\<close> returns.\<close>

definition cafe_listed :: Receipt where
  "cafe_listed =
     \<lparr>merchantName = Some ''Cafe X'', store = None, date = Some ''2024-01-01'',
      totalAmount = Some (9 / 2), total_legacy = None, taxAmount = Some 0, tax = None,
      imageUri = Null, category = Some ''Other'',
      items = Some [\<lparr>id_item = ''1'', name = ''Latte'', quantity = 1, price = 9 / 2,
                     category_item = Some ''Other''\<rparr>],
      id_receipt = ''1'', subtotal = None, createdAt = Some 1, updatedAt = Some 1\<rparr>"

text \<open>A backend whose calls succeed and whose blob, if any, parses.\<close>

definition working :: "backend \<Rightarrow> bool" where
  "working db =
     (case db of
        Web w \<Rightarrow> responsive w \<and> receipts_key w \<noteq> Some Malformed
      | Mobile m \<Rightarrow> reachable m)"

text \<open>The validity test of the edit screen for one item.\<close>

definition valid_item :: "ReceiptItem \<Rightarrow> bool" where
  "valid_item item = (name item \<noteq> [] \<and> trim (name item) \<noteq> [] \<and> price item > 0)"

text \<open>A payload with an empty merchant name and no items, and the record that the blob
  variant stores for it.\<close>

definition blank_payload :: receipt_data where
  "blank_payload = no_fields\<lparr>merchantName := Some [], items := Some []\<rparr>"

definition blank_stored :: Receipt where
  "blank_stored =
     \<lparr>merchantName = Some ''Unknown Store'', store = None, date = Some ''2024-01-01'',
      totalAmount = Some 0, total_legacy = None, taxAmount = Some 0, tax = None,
      imageUri = Null, category = Some ''Other'', items = Some [],
      id_receipt = ''1704067200000.25'', subtotal = None, createdAt = Some 1,
      updatedAt = Some 1\<rparr>"

text \<open>The rows that inserting the items \<open>its\<close> for receipt \<open>k\<close> appends when the
  largest item row id in use is \<open>k0\<close>.\<close>

fun written_rows :: "int \<Rightarrow> int \<Rightarrow> ReceiptItem list \<Rightarrow> item_row list" where
  "written_rows k k0 [] = []"
| "written_rows k k0 (it # its) =
     \<lparr>irow_id = k0 + 1, receipt_id = k, irow_name = written_name it,
      irow_quantity = written_quantity it, irow_price = price it,
      irow_category = written_category it\<rparr> # written_rows k (k0 + 1) its"

text \<open>The items of a parsed response that pass the filter of the extraction.\<close>

definition kept_items :: "json \<Rightarrow> json list promise" where
  "kept_items extractedData =
     filter_items (case get_prop extractedData ''items'' of Some (JArr xs) \<Rightarrow> xs | _ \<Rightarrow> [])"

section \<open>Verified properties\<close>

subsection \<open>The reads never reject\<close>

lemma getAll_resolves: "\<exists>rs. getAllReceiptsFromDatabase db = Inr rs"
  by (simp add: getAllReceiptsFromDatabase_def split: sum.splits)

lemma getById_resolves: "\<exists>r. getReceiptById db i = Inr r"
  by (simp add: getReceiptById_def split: sum.splits)

lemma loadReceipts_eq:
  "loadReceipts db st =
     (Inr (), st\<lparr>isLoading := False, error := None,
                receipts := (case getAllReceiptsFromDatabase db of Inr rs \<Rightarrow> rs | Inl e \<Rightarrow> [])\<rparr>)"
proof -
  obtain rs where "getAllReceiptsFromDatabase db = Inr rs"
    using getAll_resolves by blast
  then show ?thesis
    by (simp add: loadReceipts_def)
qed

subsection \<open>Write, then reload\<close>




subsection \<open>Read failures are swallowed\<close>

text \<open>
  C10. The reads of the adapter never reject: whenever the body of
  \<^verbatim>\<open>getAllReceiptsFromDatabase\<close> raises, the call resolves with the empty list, and
  whenever the body of \<^verbatim>\<open>getReceiptById\<close> raises, the call resolves with \<^verbatim>\<open>null\<close>.
  Hence \<^verbatim>\<open>loadReceipts\<close> always resolves with no error recorded, and a reload whose
  read fails replaces the in-memory list by the empty list.
\<close>

theorem reads_swallow_failures:
  "(\<exists>rs. getAllReceiptsFromDatabase db = Inr rs)
 \<and> (\<exists>r. getReceiptById db i = Inr r)
 \<and> (getAllReceiptsFromDatabase_try db = Inl e \<longrightarrow> getAllReceiptsFromDatabase db = Inr [])
 \<and> (getReceiptById_try db i = Inl e \<longrightarrow> getReceiptById db i = Inr None)
 \<and> fst (loadReceipts db st) = Inr ()
 \<and> error (snd (loadReceipts db st)) = None
 \<and> (getAllReceiptsFromDatabase_try db = Inl e \<longrightarrow> receipts (snd (loadReceipts db st)) = [])"
proof -
  have 1: "getAllReceiptsFromDatabase_try db = Inl e \<longrightarrow> getAllReceiptsFromDatabase db = Inr []"
    by (simp add: getAllReceiptsFromDatabase_def)
  have 2: "getReceiptById_try db i = Inl e \<longrightarrow> getReceiptById db i = Inr None"
    by (simp add: getReceiptById_def)
  have 3: "getAllReceiptsFromDatabase_try db = Inl e \<longrightarrow> receipts (snd (loadReceipts db st)) = []"
    using 1 by (simp add: loadReceipts_eq)
  have 4: "fst (loadReceipts db st) = Inr ()" "error (snd (loadReceipts db st)) = None"
    by (simp_all add: loadReceipts_eq)
  from 1 2 3 4 getAll_resolves getById_resolves show ?thesis
    by blast
qed

theorem reads_swallow_failures_witness:
  "getAllReceiptsFromDatabase_try down_web = Inl (Error ''AsyncStorage unavailable'')
 \<and> getReceiptById_try down_web ''L1'' = Inl (Error ''AsyncStorage unavailable'')
 \<and> getAllReceiptsFromDatabase down_web = Inr []
 \<and> getReceiptById down_web ''L1'' = Inr None
 \<and> receipts loaded_store = [legacy_record]
 \<and> receipts (snd (loadReceipts down_web loaded_store)) = []
 \<and> error (snd (loadReceipts down_web loaded_store)) = None"
proof -
  have a: "getAllReceiptsFromDatabase_try down_web = Inl (Error ''AsyncStorage unavailable'')"
    by (simp add: getAllReceiptsFromDatabase_try_def down_web_def read_receipts_def
        AsyncStorage_getItem_def)
  have b: "getReceiptById_try down_web ''L1'' = Inl (Error ''AsyncStorage unavailable'')"
    by (simp add: getReceiptById_try_def down_web_def read_receipts_def AsyncStorage_getItem_def)
  have c: "receipts loaded_store = [legacy_record]"
    by (simp add: loaded_store_def)
  from a b c
    reads_swallow_failures [of down_web "''L1''" "Error ''AsyncStorage unavailable''" loaded_store]
  show ?thesis
    by blast
qed

subsection \<open>Missing ids\<close>

lemma getReceiptById_unresolved:
  assumes "\<not> resolves db i"
  shows "getReceiptById db i = Inr None"
proof (cases db)
  case (Web w)
  show ?thesis
  proof (cases "read_receipts w")
    case (Inl err)
    with Web show ?thesis
      by (simp add: getReceiptById_def getReceiptById_try_def)
  next
    case (Inr rs)
    with assms Web have "find (\<lambda>r. id_receipt r = i) rs = None"
      by (auto simp: resolves_def read_receipts_def AsyncStorage_getItem_def parse_receipts_def
            find_None_iff list_ex_iff split: if_splits option.splits stored_json.splits)
    with Web Inr show ?thesis
      by (simp add: getReceiptById_def getReceiptById_try_def)
  qed
next
  case (Mobile m)
  from assms Mobile have "select_receipt m (parseInt i) = None"
    by (auto simp: resolves_def select_receipt_def find_None_iff list_ex_iff split: option.splits)
  with Mobile show ?thesis
    by (simp add: getReceiptById_def getReceiptById_try_def split: sum.splits)
qed

lemma update_not_found:
  "getReceiptById db i = Inr None \<Longrightarrow>
     updateReceiptInDatabase e i d db = (Inl (Error ''Receipt not found''), db)"
  by (simp add: updateReceiptInDatabase_def)

text \<open>
  C6. \<^verbatim>\<open>getReceiptById\<close> never rejects, and for an id that resolves to no record it
  returns \<^verbatim>\<open>null\<close>; \<^verbatim>\<open>updateReceiptInDatabase\<close> on such an id rejects with
  ``Receipt not found'' and leaves the backend as it was, and so does the store's
  \<^verbatim>\<open>updateReceipt\<close>, whose in-memory list is unchanged.
\<close>

theorem missing_id_null_and_not_found:
  "(\<exists>r. getReceiptById db i = Inr r)
 \<and> (\<not> resolves db i \<longrightarrow>
      getReceiptById db i = Inr None
    \<and> updateReceiptInDatabase e i d db = (Inl (Error ''Receipt not found''), db)
    \<and> settled (updateReceipt e i d db st) = Inl (Error ''Receipt not found'')
    \<and> backend_after (updateReceipt e i d db st) = db
    \<and> receipts (store_after (updateReceipt e i d db st)) = receipts st)"
proof (intro conjI impI)
  show "\<exists>r. getReceiptById db i = Inr r"
    by (rule getById_resolves)
next
  assume n: "\<not> resolves db i"
  then show g: "getReceiptById db i = Inr None"
    by (rule getReceiptById_unresolved)
  then show u: "updateReceiptInDatabase e i d db = (Inl (Error ''Receipt not found''), db)"
    by (rule update_not_found)
  from u show "settled (updateReceipt e i d db st) = Inl (Error ''Receipt not found'')"
    by (simp add: updateReceipt_def write_then_reload_def)
  from u show "backend_after (updateReceipt e i d db st) = db"
    by (simp add: updateReceipt_def write_then_reload_def)
  from u show "receipts (store_after (updateReceipt e i d db st)) = receipts st"
    by (simp add: updateReceipt_def write_then_reload_def)
qed

theorem missing_id_null_and_not_found_witness:
  "\<not> resolves mobile_one ''7''
 \<and> getReceiptById mobile_one ''7'' = Inr None
 \<and> updateReceiptInDatabase env1 ''7'' (no_fields\<lparr>items := Some [milk]\<rparr>) mobile_one
      = (Inl (Error ''Receipt not found''), mobile_one)
 \<and> \<not> resolves legacy_web ''L2''
 \<and> getReceiptById legacy_web ''L2'' = Inr None
 \<and> updateReceiptInDatabase env1 ''L2'' (no_fields\<lparr>items := Some [milk]\<rparr>) legacy_web
      = (Inl (Error ''Receipt not found''), legacy_web)"
proof -
  have a: "\<not> resolves mobile_one ''7''"
    by code_simp
  have b: "\<not> resolves legacy_web ''L2''"
    by code_simp
  from a b
    missing_id_null_and_not_found [of mobile_one "''7''" env1 "no_fields\<lparr>items := Some [milk]\<rparr>"]
    missing_id_null_and_not_found [of legacy_web "''L2''" env1 "no_fields\<lparr>items := Some [milk]\<rparr>"]
  show ?thesis
    by blast
qed

subsection \<open>Insights over the empty list\<close>

text \<open>
  C9. On the empty list the aggregator returns zero total spending, zero average
  spending and no top categories, without raising; \<^verbatim>\<open>getReceiptInsights\<close> never
  rejects; and the average is the total divided by the number of receipts exactly when
  that number is positive, and 0 otherwise.
\<close>

theorem insights_of_empty_list:
  "insights_of [] = Inr zero_insights
 \<and> totalSpending zero_insights = 0
 \<and> averageSpending zero_insights = 0
 \<and> topCategories zero_insights = []
 \<and> (getAllReceiptsFromDatabase db = Inr [] \<longrightarrow> getReceiptInsights db = Inr zero_insights)
 \<and> (\<exists>ins. getReceiptInsights db = Inr ins)
 \<and> (insights_of rs = Inr ins \<longrightarrow>
       averageSpending ins =
         (if 0 < length rs then totalSpending ins / of_nat (length rs) else 0))"
proof -
  have e: "insights_of [] = Inr zero_insights"
    by (simp add: insights_of_def zero_insights_def Object_entries_def)
  have g: "getAllReceiptsFromDatabase db = Inr [] \<longrightarrow> getReceiptInsights db = Inr zero_insights"
    by (simp add: getReceiptInsights_def e)
  have t: "\<exists>ins. getReceiptInsights db = Inr ins"
    by (simp add: getReceiptInsights_def split: sum.splits)
  have a: "insights_of rs = Inr ins \<longrightarrow>
       averageSpending ins =
         (if 0 < length rs then totalSpending ins / of_nat (length rs) else 0)"
    by (cases "all_items rs") (auto simp: insights_of_def Let_def)
  from e g t a show ?thesis
    by (simp add: zero_insights_def)
qed


theorem insights_of_empty_list_witness:
  "getAllReceiptsFromDatabase empty_web = Inr []
 \<and> getReceiptInsights empty_web = Inr zero_insights
 \<and> insights_of [legacy_record, legacy_record\<lparr>totalAmount := Some 5\<rparr>]
     = Inr \<lparr>totalSpending = 5, categoryBreakdown = [(''Other'', 9)],
            recentTransactions = [legacy_record, legacy_record\<lparr>totalAmount := Some 5\<rparr>],
            totalReceipts = 2, averageSpending = 5 / 2,
            topCategories = [\<lparr>category_name = ''Other'', total_c = 9, count_c = 2\<rparr>],
            monthlySpending = []\<rparr>
 \<and> (5 / 2 :: rat) = (if 0 < length [legacy_record, legacy_record\<lparr>totalAmount := Some 5\<rparr>]
                       then 5 / of_nat (length [legacy_record, legacy_record\<lparr>totalAmount := Some 5\<rparr>]) else 0)"
proof -
  have a: "getAllReceiptsFromDatabase empty_web = Inr []"
    by code_simp
  have b: "insights_of [legacy_record, legacy_record\<lparr>totalAmount := Some 5\<rparr>]
     = Inr \<lparr>totalSpending = 5, categoryBreakdown = [(''Other'', 9)],
            recentTransactions = [legacy_record, legacy_record\<lparr>totalAmount := Some 5\<rparr>],
            totalReceipts = 2, averageSpending = 5 / 2,
            topCategories = [\<lparr>category_name = ''Other'', total_c = 9, count_c = 2\<rparr>],
            monthlySpending = []\<rparr>"
    by code_simp
  from a b
    insights_of_empty_list [of empty_web "[legacy_record, legacy_record\<lparr>totalAmount := Some 5\<rparr>]"
      "\<lparr>totalSpending = 5, categoryBreakdown = [(''Other'', 9)],
            recentTransactions = [legacy_record, legacy_record\<lparr>totalAmount := Some 5\<rparr>],
            totalReceipts = 2, averageSpending = 5 / 2,
            topCategories = [\<lparr>category_name = ''Other'', total_c = 9, count_c = 2\<rparr>],
            monthlySpending = []\<rparr>"]
  show ?thesis
    by simp
qed

subsection \<open>Order of the listing\<close>

lemma sorted_desc_sort_key:
  "sorted_wrt (\<lambda>a b. b \<le> a) (map f (sort_key (\<lambda>x. - int (f x)) xs))" for f :: "'a \<Rightarrow> nat"
proof -
  have "sorted (map (\<lambda>x. - int (f x)) (sort_key (\<lambda>x. - int (f x)) xs))"
    by (rule sorted_sort_key)
  then show ?thesis
    by (simp add: sorted_map sorted_wrt_map)
qed

text \<open>The relational variant lists the receipts by creation time, most recent first.\<close>

lemma mobile_listing_descending:
  assumes "getAllReceiptsFromDatabase (Mobile m) = Inr rs"
  shows "\<exists>ts. map createdAt rs = map Some ts \<and> sorted_wrt (\<lambda>a b. b \<le> a) ts"
proof (cases "reachable m")
  case False
  with assms have "rs = []"
    by (simp add: getAllReceiptsFromDatabase_def getAllReceiptsFromDatabase_try_def
        ensureDatabaseConnection_def)
  then show ?thesis
    by simp
next
  case True
  with assms have rs: "rs = map (receipt_of_row m) (select_receipts_desc m)"
    by (simp add: getAllReceiptsFromDatabase_def getAllReceiptsFromDatabase_try_def
        ensureDatabaseConnection_def)
  have "map createdAt rs = map Some (map created_at (select_receipts_desc m))"
    by (simp add: rs receipt_of_row_def)
  moreover have "sorted_wrt (\<lambda>a b. b \<le> a) (map created_at (select_receipts_desc m))"
    unfolding select_receipts_desc_def by (rule sorted_desc_sort_key)
  ultimately show ?thesis
    by blast
qed

text \<open>
  C2. The claim asks of both variants a listing by creation time, most recent first.
  On the blob variant two saves, at instants 1 and 2, into an empty store are listed in
  the order of the saves: the older receipt comes first.
\<close>

theorem web_listing_oldest_first:
  "map_sum (\<lambda>err. err) (map (\<lambda>r. (merchantName r, createdAt r)))
     (getAllReceiptsFromDatabase
        (snd (saveReceiptToDatabase env1 (receipt_data.truncate (draft_of ''Second'' [milk]))
           (snd (saveReceiptToDatabase env0 (receipt_data.truncate (draft_of ''First'' [latte]))
              empty_web)))))
   = Inr [(Some ''First'', Some 1), (Some ''Second'', Some 2)]"
  by code_simp

subsection \<open>Legacy field names\<close>

lemma foldl_add_sum_list:
  "foldl (\<lambda>acc x. acc + f x) a xs = a + sum_list (map f xs)" for a :: rat
  by (induction xs arbitrary: a) (simp_all add: add.assoc)

lemma effective_total_eq:
  "num_or (or_number (totalAmount r) (total_legacy r)) 0 = effective_total r"
  by (simp add: num_or_def or_number_def truthy_num_def effective_total_def split: option.splits)

lemma getTotalSpending_sum:
  "getTotalSpending st = sum_list (map effective_total (receipts st))"
  by (simp add: getTotalSpending_def foldl_add_sum_list effective_total_eq)

text \<open>
  C3, as stated, fails: a record stored with \<^verbatim>\<open>store\<close>, \<^verbatim>\<open>total\<close> and \<^verbatim>\<open>tax\<close> only
  comes back from both reads of the blob variant as it is stored, with no
  \<^verbatim>\<open>merchantName\<close>, \<^verbatim>\<open>totalAmount\<close> or \<^verbatim>\<open>taxAmount\<close>.
\<close>

theorem legacy_record_returned_unnormalised:
  "getAllReceiptsFromDatabase legacy_web = Inr [legacy_record]
 \<and> getReceiptById legacy_web ''L1'' = Inr (Some legacy_record)
 \<and> store legacy_record = Some ''Old Shop'' \<and> merchantName legacy_record = None
 \<and> total_legacy legacy_record = Some 12 \<and> totalAmount legacy_record = None
 \<and> tax legacy_record = Some 1 \<and> taxAmount legacy_record = None"
  by (simp add: getAllReceiptsFromDatabase_def getAllReceiptsFromDatabase_try_def
      getReceiptById_def getReceiptById_try_def legacy_web_def legacy_blob_def read_receipts_def
      AsyncStorage_getItem_def parse_receipts_def legacy_record_def)

lemma select_receipt_row:
  "select_receipt m (parseInt i) = Some row \<Longrightarrow>
     row \<in> set (receipts_tbl m) \<and> parseInt i = Some (row_id row)"
  by (auto simp: select_receipt_def find_Some_iff split: option.splits)

lemma set_select_receipts_desc [simp]:
  "set (select_receipts_desc m) = set (receipts_tbl m)"
  by (simp add: select_receipts_desc_def)

text \<open>
  C3, amended. The reads of the blob variant return the stored records unchanged. The
  reads of the relational variant, the listing and the read by id alike, return records
  without legacy names whose \<^verbatim>\<open>merchantName\<close>, \<^verbatim>\<open>totalAmount\<close> and \<^verbatim>\<open>taxAmount\<close>
  are the columns \<^verbatim>\<open>merchant_name\<close>, \<^verbatim>\<open>total_amount\<close> and \<^verbatim>\<open>tax_amount\<close> of a row
  of the table. The preference of the current name over the legacy one, and the default
  0, is applied where the store consumes the list: \<^verbatim>\<open>getTotalSpending\<close> adds, for each
  receipt, \<^verbatim>\<open>totalAmount\<close> if it is truthy, else \<^verbatim>\<open>total\<close> if it is truthy, else 0; a
  record with the legacy total only contributes that total.
\<close>

theorem reads_return_records_as_stored:
  "(responsive w \<and> receipts_key w = Some (Parsed rs) \<longrightarrow>
      getAllReceiptsFromDatabase (Web w) = Inr rs
    \<and> getReceiptById (Web w) i = Inr (find (\<lambda>r. id_receipt r = i) rs))
 \<and> (getAllReceiptsFromDatabase (Mobile m) = Inr rs' \<longrightarrow>
      (\<forall>r \<in> set rs'. store r = None \<and> total_legacy r = None \<and> tax r = None
          \<and> merchantName r \<noteq> None \<and> totalAmount r \<noteq> None
          \<and> (\<exists>row \<in> set (receipts_tbl m).
                id_receipt r = show_int (row_id row)
              \<and> merchantName r = Some (merchant_name row)
              \<and> totalAmount r = Some (total_amount row)
              \<and> taxAmount r = tax_amount row)))
 \<and> (reachable m \<longrightarrow>
      getAllReceiptsFromDatabase (Mobile m)
        = Inr (map (receipt_of_row m) (select_receipts_desc m)))
 \<and> (getReceiptById (Mobile m) i = Inr (Some r1) \<longrightarrow>
      store r1 = None \<and> total_legacy r1 = None \<and> tax r1 = None
    \<and> (\<exists>row \<in> set (receipts_tbl m).
          parseInt i = Some (row_id row)
        \<and> id_receipt r1 = show_int (row_id row)
        \<and> merchantName r1 = Some (merchant_name row)
        \<and> totalAmount r1 = Some (total_amount row)
        \<and> taxAmount r1 = tax_amount row))
 \<and> getTotalSpending st = sum_list (map effective_total (receipts st))
 \<and> (totalAmount r0 = None \<longrightarrow>
      effective_total r0 = (case total_legacy r0 of None \<Rightarrow> 0 | Some t \<Rightarrow> t))"
proof -
  have web: "responsive w \<and> receipts_key w = Some (Parsed rs) \<longrightarrow>
      getAllReceiptsFromDatabase (Web w) = Inr rs
    \<and> getReceiptById (Web w) i = Inr (find (\<lambda>r. id_receipt r = i) rs)"
    by (simp add: getAllReceiptsFromDatabase_def getAllReceiptsFromDatabase_try_def
        getReceiptById_def getReceiptById_try_def
        read_receipts_def AsyncStorage_getItem_def parse_receipts_def)
  have listing: "getAllReceiptsFromDatabase (Mobile m) = Inr rs' \<longrightarrow>
      (\<forall>r \<in> set rs'. store r = None \<and> total_legacy r = None \<and> tax r = None
          \<and> merchantName r \<noteq> None \<and> totalAmount r \<noteq> None
          \<and> (\<exists>row \<in> set (receipts_tbl m).
                id_receipt r = show_int (row_id row)
              \<and> merchantName r = Some (merchant_name row)
              \<and> totalAmount r = Some (total_amount row)
              \<and> taxAmount r = tax_amount row))"
  proof (intro impI ballI)
    fix r
    assume "getAllReceiptsFromDatabase (Mobile m) = Inr rs'" and "r \<in> set rs'"
    then have "r \<in> set (map (receipt_of_row m) (select_receipts_desc m))"
      by (auto simp: getAllReceiptsFromDatabase_def getAllReceiptsFromDatabase_try_def
          split: sum.splits)
    then obtain row where "row \<in> set (receipts_tbl m)" "r = receipt_of_row m row"
      by auto
    then show "store r = None \<and> total_legacy r = None \<and> tax r = None
          \<and> merchantName r \<noteq> None \<and> totalAmount r \<noteq> None
          \<and> (\<exists>row \<in> set (receipts_tbl m).
                id_receipt r = show_int (row_id row)
              \<and> merchantName r = Some (merchant_name row)
              \<and> totalAmount r = Some (total_amount row)
              \<and> taxAmount r = tax_amount row)"
      by (auto simp: receipt_of_row_def)
  qed
  have complete: "reachable m \<longrightarrow>
      getAllReceiptsFromDatabase (Mobile m)
        = Inr (map (receipt_of_row m) (select_receipts_desc m))"
    by (simp add: getAllReceiptsFromDatabase_def getAllReceiptsFromDatabase_try_def
        ensureDatabaseConnection_def)
  have by_id: "getReceiptById (Mobile m) i = Inr (Some r1) \<longrightarrow>
      store r1 = None \<and> total_legacy r1 = None \<and> tax r1 = None
    \<and> (\<exists>row \<in> set (receipts_tbl m).
          parseInt i = Some (row_id row)
        \<and> id_receipt r1 = show_int (row_id row)
        \<and> merchantName r1 = Some (merchant_name row)
        \<and> totalAmount r1 = Some (total_amount row)
        \<and> taxAmount r1 = tax_amount row)"
  proof
    assume "getReceiptById (Mobile m) i = Inr (Some r1)"
    then have "map_option (receipt_of_row m) (select_receipt m (parseInt i)) = Some r1"
      by (auto simp: getReceiptById_def getReceiptById_try_def split: sum.splits)
    then obtain row where sel: "select_receipt m (parseInt i) = Some row"
      and r1: "r1 = receipt_of_row m row"
      by auto
    from select_receipt_row [OF sel] r1
    show "store r1 = None \<and> total_legacy r1 = None \<and> tax r1 = None
      \<and> (\<exists>row \<in> set (receipts_tbl m).
            parseInt i = Some (row_id row)
          \<and> id_receipt r1 = show_int (row_id row)
          \<and> merchantName r1 = Some (merchant_name row)
          \<and> totalAmount r1 = Some (total_amount row)
          \<and> taxAmount r1 = tax_amount row)"
      by (auto simp: receipt_of_row_def)
  qed
  have spending: "getTotalSpending st = sum_list (map effective_total (receipts st))"
    by (rule getTotalSpending_sum)
  have legacy: "totalAmount r0 = None \<longrightarrow>
      effective_total r0 = (case total_legacy r0 of None \<Rightarrow> 0 | Some t \<Rightarrow> t)"
    by (simp add: effective_total_def truthy_num_def split: option.splits)
  from web listing complete by_id spending legacy show ?thesis
    by (intro conjI)
qed

theorem reads_return_records_as_stored_witness:
  "responsive legacy_blob \<and> receipts_key legacy_blob = Some (Parsed [legacy_record])
 \<and> getAllReceiptsFromDatabase (Web legacy_blob) = Inr [legacy_record]
 \<and> getReceiptById (Web legacy_blob) ''L1'' = Inr (Some legacy_record)
 \<and> reachable one_receipt_tables
 \<and> getAllReceiptsFromDatabase (Mobile one_receipt_tables) = Inr [cafe_listed]
 \<and> getReceiptById (Mobile one_receipt_tables) ''1'' = Inr (Some cafe_listed)
 \<and> store cafe_listed = None \<and> total_legacy cafe_listed = None \<and> tax cafe_listed = None
 \<and> merchantName cafe_listed \<noteq> None \<and> totalAmount cafe_listed \<noteq> None
 \<and> map merchant_name (receipts_tbl one_receipt_tables) = [''Cafe X'']
 \<and> map total_amount (receipts_tbl one_receipt_tables) = [9 / 2]
 \<and> map tax_amount (receipts_tbl one_receipt_tables) = [Some 0]
 \<and> merchantName cafe_listed = Some ''Cafe X''
 \<and> totalAmount cafe_listed = Some (9 / 2)
 \<and> taxAmount cafe_listed = Some 0
 \<and> getTotalSpending loaded_store = 12
 \<and> totalAmount legacy_record = None
 \<and> effective_total legacy_record = 12"
proof -
  have a: "responsive legacy_blob \<and> receipts_key legacy_blob = Some (Parsed [legacy_record])"
    by (simp add: legacy_blob_def)
  have b: "getAllReceiptsFromDatabase (Mobile one_receipt_tables) = Inr [cafe_listed]"
    "getReceiptById (Mobile one_receipt_tables) ''1'' = Inr (Some cafe_listed)"
    by code_simp+
  have c: "totalAmount legacy_record = None" "total_legacy legacy_record = Some 12"
    "id_receipt legacy_record = ''L1''"
    by (simp_all add: legacy_record_def)
  have d: "receipts loaded_store = [legacy_record]"
    by (simp add: loaded_store_def)
  have e: "reachable one_receipt_tables"
    "map merchant_name (receipts_tbl one_receipt_tables) = [''Cafe X'']"
    "map total_amount (receipts_tbl one_receipt_tables) = [9 / 2]"
    "map tax_amount (receipts_tbl one_receipt_tables) = [Some 0]"
    by (simp_all add: one_receipt_tables_def)
  have f: "set (receipts_tbl one_receipt_tables) = {hd (receipts_tbl one_receipt_tables)}"
    "merchant_name (hd (receipts_tbl one_receipt_tables)) = ''Cafe X''"
    "total_amount (hd (receipts_tbl one_receipt_tables)) = 9 / 2"
    "tax_amount (hd (receipts_tbl one_receipt_tables)) = Some 0"
    by (simp_all add: one_receipt_tables_def)
  from a b c d e f
    reads_return_records_as_stored [of legacy_blob "[legacy_record]" "''L1''"
      one_receipt_tables "[cafe_listed]" cafe_listed loaded_store legacy_record]
  show ?thesis
    by simp
qed

subsection \<open>Validation before a write\<close>

text \<open>
  C4, as stated, fails: \<^verbatim>\<open>saveReceiptToDatabase\<close> accepts a payload with an empty
  merchant name and no items, and stores a receipt named ``Unknown Store'' with an empty
  item list.
\<close>

theorem save_accepts_blank_payload:
  "saveReceiptToDatabase env0 blank_payload empty_web
     = (Inr (), Web \<lparr>responsive = True, receipts_key = Some (Parsed [blank_stored])\<rparr>)
 \<and> merchantName blank_payload = Some []
 \<and> items blank_payload = Some []
 \<and> items blank_stored = Some []"
  by code_simp

lemma save_resolves:
  assumes "working db"
  shows "fst (saveReceiptToDatabase e d db) = Inr ()"
proof (cases db)
  case (Web w)
  with assms have "\<exists>rs. read_receipts w = Inr rs" and "responsive w"
    by (auto simp: working_def read_receipts_def AsyncStorage_getItem_def parse_receipts_def
          split: option.splits stored_json.splits)
  with Web show ?thesis
    by (auto simp: saveReceiptToDatabase_def Let_def AsyncStorage_setItem_def)
next
  case (Mobile m)
  with assms show ?thesis
    by (simp add: saveReceiptToDatabase_def Let_def working_def ensureDatabaseConnection_def)
qed

lemma valid_item_test:
  "(\<lambda>item. name item \<noteq> [] \<and> trim (name item) \<noteq> [] \<and> 0 < price item) = valid_item"
  by (rule ext) (simp add: valid_item_def)

lemma handleSave_blank_merchant:
  "trim (str_or (or_string (merchantName r) (store r)) []) = [] \<Longrightarrow>
     handleSave e r db st = (Inr (Alert ''Error'' ''Please enter a store name''), db, st)"
  by (simp add: handleSave_def)

lemma handleSave_no_valid_item:
  "trim (str_or (or_string (merchantName r) (store r)) []) \<noteq> [] \<Longrightarrow>
   items r = Some its \<Longrightarrow> filter valid_item its = [] \<Longrightarrow>
     handleSave e r db st = (Inr (Alert ''Error'' ''Please add at least one valid item''), db, st)"
  by (simp add: handleSave_def Let_def valid_item_test)

text \<open>
  C4, amended. The guard is in the edit screen: when the form's merchant name
  (\<^verbatim>\<open>merchantName || store\<close>) is blank, or none of its items is valid (a non-blank
  name and a positive price), \<^verbatim>\<open>handleSave\<close> shows an error alert and returns with the
  backend and the store untouched. The adapter's \<^verbatim>\<open>saveReceiptToDatabase\<close> validates
  nothing: on a working backend it resolves for every payload.
\<close>

theorem handleSave_rejects_invalid_form:
  "(trim (str_or (or_string (merchantName r) (store r)) []) = []
      \<or> (\<exists>its. items r = Some its \<and> filter valid_item its = []) \<longrightarrow>
      (\<exists>msg. settled (handleSave e r db st) = Inr (Alert ''Error'' msg))
    \<and> backend_after (handleSave e r db st) = db
    \<and> store_after (handleSave e r db st) = st)
 \<and> (working db \<longrightarrow> fst (saveReceiptToDatabase e d db) = Inr ())"
proof (intro conjI impI)
  assume h: "trim (str_or (or_string (merchantName r) (store r)) []) = []
      \<or> (\<exists>its. items r = Some its \<and> filter valid_item its = [])"
  have "\<exists>msg. handleSave e r db st = (Inr (Alert ''Error'' msg), db, st)"
  proof (cases "trim (str_or (or_string (merchantName r) (store r)) []) = []")
    case True
    then show ?thesis
      by (simp add: handleSave_blank_merchant)
  next
    case False
    with h obtain its where "items r = Some its" "filter valid_item its = []"
      by blast
    with False show ?thesis
      by (simp add: handleSave_no_valid_item)
  qed
  then obtain msg where m: "handleSave e r db st = (Inr (Alert ''Error'' msg), db, st)"
    by blast
  from m show "\<exists>msg. settled (handleSave e r db st) = Inr (Alert ''Error'' msg)"
    by simp
  from m show "backend_after (handleSave e r db st) = db"
    by simp
  from m show "store_after (handleSave e r db st) = st"
    by simp
next
  assume "working db"
  then show "fst (saveReceiptToDatabase e d db) = Inr ()"
    by (rule save_resolves)
qed

theorem handleSave_rejects_invalid_form_witness:
  "filter valid_item [milk\<lparr>price := 0\<rparr>, latte\<lparr>name := '' ''\<rparr>] = []
 \<and> settled (handleSave env1
      (cafe_listed\<lparr>items := Some [milk\<lparr>price := 0\<rparr>, latte\<lparr>name := '' ''\<rparr>]\<rparr>)
      mobile_one loaded_store) = Inr (Alert ''Error'' ''Please add at least one valid item'')
 \<and> backend_after (handleSave env1
      (cafe_listed\<lparr>items := Some [milk\<lparr>price := 0\<rparr>, latte\<lparr>name := '' ''\<rparr>]\<rparr>)
      mobile_one loaded_store) = mobile_one
 \<and> store_after (handleSave env1
      (cafe_listed\<lparr>items := Some [milk\<lparr>price := 0\<rparr>, latte\<lparr>name := '' ''\<rparr>]\<rparr>)
      mobile_one loaded_store) = loaded_store
 \<and> working mobile_one
 \<and> fst (saveReceiptToDatabase env1 blank_payload mobile_one) = Inr ()"
proof -
  have a: "filter valid_item [milk\<lparr>price := 0\<rparr>, latte\<lparr>name := '' ''\<rparr>] = []"
    by code_simp
  have b: "items (cafe_listed\<lparr>items := Some [milk\<lparr>price := 0\<rparr>, latte\<lparr>name := '' ''\<rparr>]\<rparr>)
             = Some [milk\<lparr>price := 0\<rparr>, latte\<lparr>name := '' ''\<rparr>]"
    by simp
  have c: "working mobile_one"
    by code_simp
  have d: "settled (handleSave env1
      (cafe_listed\<lparr>items := Some [milk\<lparr>price := 0\<rparr>, latte\<lparr>name := '' ''\<rparr>]\<rparr>)
      mobile_one loaded_store) = Inr (Alert ''Error'' ''Please add at least one valid item'')"
    by code_simp
  from a b c d
    handleSave_rejects_invalid_form
      [of "cafe_listed\<lparr>items := Some [milk\<lparr>price := 0\<rparr>, latte\<lparr>name := '' ''\<rparr>]\<rparr>"
        env1 mobile_one loaded_store blank_payload]
  show ?thesis
    by blast
qed

subsection \<open>The insert of the items leaves the receipts alone\<close>

lemma insert_item_receipts_tbl [simp]:
  "receipts_tbl (insert_item k m it) = receipts_tbl m"
  by (simp add: insert_item_def Let_def)

lemma insert_item_reachable [simp]:
  "reachable (insert_item k m it) = reachable m"
  by (simp add: insert_item_def Let_def)

lemma foldl_insert_item_receipts_tbl [simp]:
  "receipts_tbl (foldl (insert_item k) m its) = receipts_tbl m"
  by (induction its arbitrary: m) simp_all

lemma foldl_insert_item_reachable [simp]:
  "reachable (foldl (insert_item k) m its) = reachable m"
  by (induction its arbitrary: m) simp_all

subsection \<open>An update replaces the items\<close>

lemma fold_max_ge: "a \<le> fold max xs a" for a :: int
proof (induction xs arbitrary: a)
  case Nil
  then show ?case by simp
next
  case (Cons x xs)
  have "a \<le> max x a" by simp
  also have "\<dots> \<le> fold max xs (max x a)" by (rule Cons.IH)
  finally show ?case by simp
qed

lemma fold_max_mem: "x \<in> set xs \<Longrightarrow> x \<le> fold max xs a" for a :: int
proof (induction xs arbitrary: a)
  case Nil
  then show ?case by simp
next
  case (Cons y ys)
  show ?case
  proof (cases "x = y")
    case True
    have "y \<le> max y a" by simp
    also have "\<dots> \<le> fold max ys (max y a)" by (rule fold_max_ge)
    finally show ?thesis using True by simp
  next
    case False
    with Cons show ?thesis by simp
  qed
qed

lemma fold_max_bound: "\<forall>x \<in> set xs. x \<le> b \<Longrightarrow> fold max xs b = b" for b :: int
  by (induction xs) (simp_all add: max_absorb2)

lemma fold_max_step [simp]:
  "fold max xs (fold max xs a + 1) = fold max xs a + 1" for a :: int
proof (rule fold_max_bound)
  show "\<forall>x \<in> set xs. x \<le> fold max xs a + 1"
    using fold_max_mem [of _ xs a] by fastforce
qed

lemma insert_loop:
  "foldl (insert_item k) m its =
     m\<lparr>receipt_items_tbl := receipt_items_tbl m
          @ written_rows k (fold max (map irow_id (receipt_items_tbl m)) (receipt_items_seq m)) its,
       receipt_items_seq := (if its = [] then receipt_items_seq m
          else fold max (map irow_id (receipt_items_tbl m)) (receipt_items_seq m) + int (length its))\<rparr>"
proof (induction its arbitrary: m)
  case Nil
  then show ?case by simp
next
  case (Cons it its)
  let ?k0 = "fold max (map irow_id (receipt_items_tbl m)) (receipt_items_seq m)"
  let ?m1 = "insert_item k m it"
  have tbl: "receipt_items_tbl ?m1 = receipt_items_tbl m @
      [\<lparr>irow_id = ?k0 + 1, receipt_id = k, irow_name = written_name it,
        irow_quantity = written_quantity it, irow_price = price it,
        irow_category = written_category it\<rparr>]"
    by (simp add: insert_item_def Let_def next_rowid_def written_name_def written_quantity_def
        written_category_def)
  have seq: "receipt_items_seq ?m1 = ?k0 + 1"
    by (simp add: insert_item_def Let_def next_rowid_def)
  have base: "fold max (map irow_id (receipt_items_tbl ?m1)) (receipt_items_seq ?m1) = ?k0 + 1"
    by (simp add: tbl seq)
  have rest: "?m1\<lparr>receipt_items_tbl := x, receipt_items_seq := y\<rparr>
      = m\<lparr>receipt_items_tbl := x, receipt_items_seq := y\<rparr>" for x y
    by (simp add: insert_item_def Let_def)
  have "foldl (insert_item k) m (it # its) = foldl (insert_item k) ?m1 its"
    by simp
  also have "\<dots> = ?m1\<lparr>receipt_items_tbl := receipt_items_tbl ?m1 @ written_rows k (?k0 + 1) its,
       receipt_items_seq := (if its = [] then receipt_items_seq ?m1
          else ?k0 + 1 + int (length its))\<rparr>"
    by (simp only: Cons.IH base)
  also have "\<dots> = m\<lparr>receipt_items_tbl := receipt_items_tbl m @ written_rows k ?k0 (it # its),
       receipt_items_seq := ?k0 + int (length (it # its))\<rparr>"
    by (simp add: rest tbl seq)
  finally show ?case
    by simp
qed

lemma written_rows_receipt_id: "r \<in> set (written_rows k k0 its) \<Longrightarrow> receipt_id r = k"
  by (induction its arbitrary: k0) auto

lemma filter_written_rows [simp]:
  "filter (\<lambda>r. receipt_id r = k) (written_rows k k0 its) = written_rows k k0 its"
  by (simp add: written_rows_receipt_id)

lemma written_rows_fields:
  "map irow_name (written_rows k k0 its) = map written_name its"
  "map irow_quantity (written_rows k k0 its) = map written_quantity its"
  "map irow_price (written_rows k k0 its) = map price its"
  "map irow_category (written_rows k k0 its) = map written_category its"
  "map irow_id (written_rows k k0 its) = map (\<lambda>n. k0 + 1 + int n) [0..<length its]"
proof -
  show "map irow_name (written_rows k k0 its) = map written_name its"
    by (induction its arbitrary: k0) simp_all
  show "map irow_quantity (written_rows k k0 its) = map written_quantity its"
    by (induction its arbitrary: k0) simp_all
  show "map irow_price (written_rows k k0 its) = map price its"
    by (induction its arbitrary: k0) simp_all
  show "map irow_category (written_rows k k0 its) = map written_category its"
    by (induction its arbitrary: k0) simp_all
  show "map irow_id (written_rows k k0 its) = map (\<lambda>n. k0 + 1 + int n) [0..<length its]"
  proof (induction its arbitrary: k0)
    case Nil
    then show ?case by simp
  next
    case (Cons it its)
    have "[0..<length (it # its)] = 0 # map Suc [0..<length its]"
      by (simp add: upt_conv_Cons map_Suc_upt del: upt_Suc)
    then show ?case
      by (simp add: Cons.IH comp_def add.assoc del: upt_Suc)
  qed
qed


lemma findIndex_Some:
  "findIndex P xs = Some n \<Longrightarrow> n < length xs \<and> P (xs ! n) \<and> (\<forall>j<n. \<not> P (xs ! j))"
proof (induction xs arbitrary: n)
  case Nil
  then show ?case by simp
next
  case (Cons x xs)
  show ?case
  proof (cases "P x")
    case True
    with Cons.prems show ?thesis by simp
  next
    case False
    with Cons.prems obtain n' where n': "findIndex P xs = Some n'" "n = Suc n'"
      by (auto split: if_splits)
    from Cons.IH [OF n'(1)] False n'(2) show ?thesis
      by (auto simp: less_Suc_eq_0_disj)
  qed
qed

lemma find_findIndex: "find P xs = Some x \<Longrightarrow> \<exists>n. findIndex P xs = Some n"
  by (induction xs) (auto split: if_splits)

lemma find_update_first:
  "n < length xs \<Longrightarrow> \<forall>j<n. \<not> P (xs ! j) \<Longrightarrow> P y \<Longrightarrow> find P (xs[n := y]) = Some y"
proof (induction xs arbitrary: n)
  case Nil
  then show ?case by simp
next
  case (Cons x xs)
  show ?case
  proof (cases n)
    case 0
    with Cons.prems show ?thesis by simp
  next
    case (Suc n')
    with Cons.prems have "\<not> P x" "n' < length xs" "\<forall>j<n'. \<not> P (xs ! j)"
      by auto
    with Cons.IH [of n'] Cons.prems(3) Suc show ?thesis
      by simp
  qed
qed

lemma find_map_same_key:
  "(\<And>x. key (f x) = key x) \<Longrightarrow>
     find (\<lambda>x. key x = k) (map f xs) = map_option f (find (\<lambda>x. key x = k) xs)"
  by (induction xs) simp_all

lemma getReceiptById_Some_try:
  "getReceiptById db i = Inr (Some r) \<Longrightarrow> getReceiptById_try db i = Inr (Some r)"
  by (simp add: getReceiptById_def split: sum.splits)

lemma web_update_replaces:
  assumes found: "getReceiptById (Web w) i = Inr (Some existing)" and d: "items d = Some I2"
  shows "\<exists>r. updateReceiptInDatabase e i d (Web w) = (Inr (), Web (w\<lparr>receipts_key := Some (Parsed r)\<rparr>))
           \<and> (\<exists>u. getReceiptById (Web (w\<lparr>receipts_key := Some (Parsed r)\<rparr>)) i = Inr (Some u)
                  \<and> items u = Some I2)"
proof -
  from getReceiptById_Some_try [OF found]
  obtain rs where rs: "read_receipts w = Inr rs" and f: "find (\<lambda>r. id_receipt r = i) rs = Some existing"
    by (auto simp: getReceiptById_try_def split: sum.splits)
  from rs have up: "responsive w"
    by (simp add: read_receipts_def AsyncStorage_getItem_def split: if_splits)
  from find_findIndex [OF f] obtain n where n: "findIndex (\<lambda>r. id_receipt r = i) rs = Some n"
    by blast
  from findIndex_Some [OF n]
  have n1: "n < length rs" and n2: "id_receipt (rs ! n) = i"
    and n3: "\<forall>j<n. \<not> id_receipt (rs ! j) = i"
    by auto
  define u where "u = (rs ! n)
     \<lparr>merchantName := Some (str_or (or_string (merchantName d) (merchantName existing)) ''Unknown Store''),
      date := Some (str_or (or_string (date d) (date existing)) (today e)),
      totalAmount := Some (num_or (or_number (or_number (totalAmount d) (total_legacy d))
                           (totalAmount existing)) 0),
      taxAmount := Some (num_or (or_number (or_number (taxAmount d) (tax d))
                           (taxAmount existing)) 0),
      imageUri := (if imageUri d \<noteq> Undefined then imageUri d else imageUri existing),
      category := Some (str_or (or_string (category d) (category existing)) ''Other''),
      items := Some I2, updatedAt := Some (now e)\<rparr>"
  have u1: "id_receipt u = i" and u2: "items u = Some I2"
    by (simp_all add: u_def n2)
  have upd: "updateReceiptInDatabase e i d (Web w)
      = (Inr (), Web (w\<lparr>receipts_key := Some (Parsed (rs[n := u]))\<rparr>))"
    using found d rs n up
    by (simp add: updateReceiptInDatabase_def Let_def AsyncStorage_setItem_def u_def)
  have "read_receipts (w\<lparr>receipts_key := Some (Parsed (rs[n := u]))\<rparr>) = Inr (rs[n := u])"
    using up by (simp add: read_receipts_def AsyncStorage_getItem_def parse_receipts_def)
  moreover have "find (\<lambda>r. id_receipt r = i) (rs[n := u]) = Some u"
    using n1 n3 u1 by (rule find_update_first)
  ultimately have "getReceiptById (Web (w\<lparr>receipts_key := Some (Parsed (rs[n := u]))\<rparr>)) i
      = Inr (Some u)"
    by (simp add: getReceiptById_def getReceiptById_try_def)
  with upd u2 show ?thesis
    by blast
qed


lemma mobile_update_replaces:
  assumes found: "getReceiptById (Mobile m) i = Inr (Some existing)" and d: "items d = Some I2"
  shows "\<exists>m' k k0. updateReceiptInDatabase e i d (Mobile m) = (Inr (), Mobile m')
           \<and> receipt_items_seq m \<le> k0
           \<and> (\<exists>u. getReceiptById (Mobile m') i = Inr (Some u)
                  \<and> items u = Some (map item_of_row (written_rows k k0 I2)))"
proof -
  from getReceiptById_Some_try [OF found]
  have up: "reachable m"
    and sel: "map_option (receipt_of_row m) (select_receipt m (parseInt i)) = Some existing"
    by (auto simp: getReceiptById_try_def ensureDatabaseConnection_def split: if_splits)
  then obtain k row where k: "parseInt i = Some k"
    and row: "find (\<lambda>r. row_id r = k) (receipts_tbl m) = Some row"
    by (auto simp: select_receipt_def split: option.splits)
  from row have rk: "row_id row = k"
    by (auto simp: find_Some_iff)
  let ?upd = "\<lambda>r::receipt_row. if row_id r = k
        then r\<lparr>merchant_name :=
                 str_or (or_string (merchantName d) (merchantName existing)) ''Unknown Store'',
               row_date := str_or (or_string (date d) (date existing)) (today e),
               total_amount :=
                 num_or (or_number (or_number (totalAmount d) (total_legacy d))
                           (totalAmount existing)) 0,
               tax_amount :=
                 Some (num_or (or_number (or_number (taxAmount d) (tax d))
                                 (taxAmount existing)) 0),
               image_uri := (case (if imageUri d \<noteq> Undefined then imageUri d
                                   else imageUri existing) of
                               Defined u \<Rightarrow> Some u | _ \<Rightarrow> None),
               row_category :=
                 Some (str_or (or_string (category d) (category existing)) ''Other''),
               updated_at := now e\<rparr>
        else r"
  define upd where "upd = ?upd"
  define m2 where "m2 = m\<lparr>receipts_tbl := map upd (receipts_tbl m),
      receipt_items_tbl := filter (\<lambda>it. receipt_id it \<noteq> k) (receipt_items_tbl m)\<rparr>"
  define k0 where "k0 = fold max (map irow_id (receipt_items_tbl m2)) (receipt_items_seq m2)"
  define m' where "m' = foldl (insert_item k) m2 I2"
  have result: "updateReceiptInDatabase e i d (Mobile m) = (Inr (), Mobile m')"
    using found d up k
    by (simp add: updateReceiptInDatabase_def Let_def ensureDatabaseConnection_def m'_def m2_def
        upd_def)
  have key: "row_id (upd r) = row_id r" for r
    by (simp add: upd_def)
  have tbl: "receipts_tbl m' = map upd (receipts_tbl m)" and up': "reachable m'"
    using up by (simp_all add: m'_def m2_def)
  have its: "receipt_items_tbl m' = filter (\<lambda>it. receipt_id it \<noteq> k) (receipt_items_tbl m)
               @ written_rows k k0 I2"
    by (simp add: m'_def insert_loop k0_def) (simp add: m2_def)
  have "find (\<lambda>r. row_id r = k) (map upd (receipts_tbl m)) = Some (upd row)"
    using row by (simp add: find_map_same_key [of row_id upd, OF key])
  then have g: "getReceiptById (Mobile m') i = Inr (Some (receipt_of_row m' (upd row)))"
    using up' k tbl
    by (simp add: getReceiptById_def getReceiptById_try_def ensureDatabaseConnection_def
        select_receipt_def)
  have "filter (\<lambda>it. receipt_id it = k) (receipt_items_tbl m') = written_rows k k0 I2"
    by (simp add: its filter_written_rows)
  then have i: "items (receipt_of_row m' (upd row)) = Some (map item_of_row (written_rows k k0 I2))"
    by (simp add: receipt_of_row_def select_items_def key rk)
  have "receipt_items_seq m \<le> k0"
    unfolding k0_def using fold_max_ge [of "receipt_items_seq m2"] by (simp add: m2_def)
  with result g i show ?thesis
    by blast
qed


lemma item_of_row_fields:
  "map name (map item_of_row rows) = map irow_name rows"
  "map quantity (map item_of_row rows) = map irow_quantity rows"
  "map price (map item_of_row rows) = map irow_price rows"
  "map category_item (map item_of_row rows) = map irow_category rows"
  "map id_item (map item_of_row rows) = map show_int (map irow_id rows)"
  by (simp_all add: item_of_row_def comp_def)

lemma written_rows_without_id:
  "\<forall>it \<in> set its. name it \<noteq> [] \<and> quantity it \<noteq> 0 \<and> truthy_str (category_item it) \<Longrightarrow>
     map without_id (map item_of_row (written_rows k k0 its)) = map without_id its"
proof (induction its arbitrary: k0)
  case Nil
  then show ?case by simp
next
  case (Cons it its)
  from Cons.prems have "name it \<noteq> []" "quantity it \<noteq> 0" "truthy_str (category_item it)"
    by simp_all
  then have "written_name it = name it" "written_quantity it = quantity it"
    "written_category it = category_item it"
    by (auto simp: written_name_def written_quantity_def written_category_def truthy_str_def
          str_or_def split: option.splits)
  then have "without_id (item_of_row
      \<lparr>irow_id = k0 + 1, receipt_id = k, irow_name = written_name it,
       irow_quantity = written_quantity it, irow_price = price it,
       irow_category = written_category it\<rparr>) = without_id it"
    by (cases it) (simp add: without_id_def item_of_row_def)
  with Cons show ?case
    by simp
qed

text \<open>
  C7. For an id under which \<^verbatim>\<open>getReceiptById\<close> finds a record and a payload with the
  items \<open>I2\<close>, the update resolves and a following \<^verbatim>\<open>getReceiptById\<close> returns one
  item for each item of \<open>I2\<close>, in the order of \<open>I2\<close>, and nothing else, so that no item
  of the prior set survives. On the blob variant the items are exactly \<open>I2\<close>. On the
  relational variant they carry consecutive fresh row ids beyond the sequence, the
  price of \<open>I2\<close>, and its name, quantity and category after the defaults of the insert
  (``Unknown Item'', 1, ``Other''); when every item of \<open>I2\<close> carries a name, a quantity
  and a category they are the items of \<open>I2\<close> up to the ids.
\<close>

theorem update_replaces_item_set:
  assumes "getReceiptById db i = Inr (Some existing)" and "items d = Some I2"
  shows "fst (updateReceiptInDatabase e i d db) = Inr ()
     \<and> (\<exists>u its'. getReceiptById (snd (updateReceiptInDatabase e i d db)) i = Inr (Some u)
          \<and> items u = Some its'
          \<and> length its' = length I2
          \<and> (case db of
               Web w \<Rightarrow> its' = I2
             | Mobile m \<Rightarrow>
                 map name its' = map written_name I2
               \<and> map quantity its' = map written_quantity I2
               \<and> map price its' = map price I2
               \<and> map category_item its' = map written_category I2
               \<and> (\<exists>k0. receipt_items_seq m \<le> k0
                     \<and> map id_item its' = map (\<lambda>n. show_int (k0 + 1 + int n)) [0..<length I2])
               \<and> ((\<forall>it \<in> set I2. name it \<noteq> [] \<and> quantity it \<noteq> 0
                                      \<and> truthy_str (category_item it))
                    \<longrightarrow> map without_id its' = map without_id I2)))"
proof (cases db)
  case (Web w)
  from web_update_replaces [OF assms [unfolded Web], of e] Web show ?thesis
    by auto
next
  case (Mobile m)
  from mobile_update_replaces [OF assms [unfolded Mobile], of e]
  obtain m' k k0 u where r: "updateReceiptInDatabase e i d (Mobile m) = (Inr (), Mobile m')"
    and s: "receipt_items_seq m \<le> k0"
    and g: "getReceiptById (Mobile m') i = Inr (Some u)"
    and i: "items u = Some (map item_of_row (written_rows k k0 I2))"
    by blast
  let ?its = "map item_of_row (written_rows k k0 I2)"
  have "map id_item ?its = map (\<lambda>n. show_int (k0 + 1 + int n)) [0..<length I2]"
    by (simp only: item_of_row_fields written_rows_fields) (simp add: comp_def)
  with s have "\<exists>k0. receipt_items_seq m \<le> k0
      \<and> map id_item ?its = map (\<lambda>n. show_int (k0 + 1 + int n)) [0..<length I2]"
    by blast
  moreover have f: "map name ?its = map written_name I2"
    "map quantity ?its = map written_quantity I2"
    "map price ?its = map price I2"
    "map category_item ?its = map written_category I2"
    by (simp_all only: item_of_row_fields written_rows_fields)
  moreover from f(3) have "length ?its = length I2"
    by (rule map_eq_imp_length_eq)
  moreover have "(\<forall>it \<in> set I2. name it \<noteq> [] \<and> quantity it \<noteq> 0
        \<and> truthy_str (category_item it)) \<longrightarrow> map without_id ?its = map without_id I2"
    by (blast intro: written_rows_without_id)
  ultimately show ?thesis
    using Mobile r g i by simp
qed

theorem update_replaces_item_set_witness:
  "getReceiptById mobile_one ''1'' = Inr (Some cafe_listed)
 \<and> getReceiptById legacy_web ''L1'' = Inr (Some legacy_record)
 \<and> items (no_fields\<lparr>items := Some [milk]\<rparr>) = Some [milk]
 \<and> items (no_fields\<lparr>items := Some [tea]\<rparr>) = Some [tea]
 \<and> name tea \<noteq> [] \<and> quantity tea \<noteq> 0 \<and> truthy_str (category_item tea)
 \<and> fst (updateReceiptInDatabase env1 ''1'' (no_fields\<lparr>items := Some [milk]\<rparr>) mobile_one) = Inr ()
 \<and> fst (updateReceiptInDatabase env1 ''L1'' (no_fields\<lparr>items := Some [milk]\<rparr>) legacy_web) = Inr ()
 \<and> map_sum (\<lambda>err. err) (map_option items)
      (getReceiptById
         (snd (updateReceiptInDatabase env1 ''L1'' (no_fields\<lparr>items := Some [milk]\<rparr>) legacy_web))
         ''L1'')
    = Inr (Some (Some [milk]))
 \<and> map_sum (\<lambda>err. err) (map_option (\<lambda>u. map_option (map without_id) (items u)))
      (getReceiptById
         (snd (updateReceiptInDatabase env1 ''1'' (no_fields\<lparr>items := Some [tea]\<rparr>) mobile_one))
         ''1'')
    = Inr (Some (Some [without_id tea]))"
proof -
  have a: "getReceiptById mobile_one ''1'' = Inr (Some cafe_listed)"
    by code_simp
  have b: "getReceiptById legacy_web ''L1'' = Inr (Some legacy_record)"
    by code_simp
  have c: "items (no_fields\<lparr>items := Some [milk]\<rparr>) = Some [milk]"
    "items (no_fields\<lparr>items := Some [tea]\<rparr>) = Some [tea]"
    by simp_all
  have t: "name tea \<noteq> [] \<and> quantity tea \<noteq> 0 \<and> truthy_str (category_item tea)"
    by (simp add: tea_def truthy_str_def)
  have w: "legacy_web = Web legacy_blob" and m: "mobile_one = Mobile one_receipt_tables"
    by (simp_all add: legacy_web_def mobile_one_def)
  from update_replaces_item_set [OF a c(1), of env1] update_replaces_item_set [OF b c(1), of env1]
    update_replaces_item_set [OF a c(2), of env1] a b c t
  show ?thesis
    by (auto simp: w m)
qed

subsection \<open>Extractions without items\<close>

lemma num_or_Some_0 [simp]: "num_or (Some t) 0 = t"
  by (simp add: num_or_def)

lemma validate_no_items:
  assumes "validate_extracted ve j = Inr x" and "kept_items j = Inr []"
  shows "items_x x = [\<lparr>name_x = ''Purchase'', price_x = totalAmount_x x, quantity_x = 1,
                       category_x = ''other''\<rparr>]"
  using assms
  by (cases j) (auto simp: validate_extracted_def kept_items_def Let_def split: sum.splits)

lemma validate_some_item:
  assumes "validate_extracted ve j = Inr x"
  shows "items_x x \<noteq> []"
  using assms
  by (cases j) (auto simp: validate_extracted_def Let_def split: sum.splits if_splits)

lemma recover_items:
  "items_x (recover_from_text ve txt) = items_x (createFallbackReceiptData ve)"
  by (simp add: recover_from_text_def Let_def split: option.splits)

lemma fallback_items:
  "items_x (createFallbackReceiptData ve)
     = [\<lparr>name_x = ''Item (please edit)'', price_x = 0, quantity_x = 1, category_x = ''other''\<rparr>]"
  "totalAmount_x (createFallbackReceiptData ve) = 0"
  by (simp_all add: createFallbackReceiptData_def)

lemma number_items_Nil [simp]: "number_items stamp n xs = [] \<longleftrightarrow> xs = []"
  by (cases xs) simp_all


lemma processReceiptImage_fields:
  "items (processReceiptImage ve stamp uri) = Some (number_items stamp 0 (items_x (extractReceiptData ve)))"
  "totalAmount (processReceiptImage ve stamp uri) = Some (totalAmount_x (extractReceiptData ve))"
  by (simp_all add: processReceiptImage_def Let_def)

text \<open>
  C5, as stated, fails for the fallback record of a response that does not parse: for
  the response text \<^verbatim>\<open>Total: 12.50\<close> the ingestion yields a receipt whose total is 12.5
  and whose single item has price 0, and \<^verbatim>\<open>addReceipt\<close> persists that total.
\<close>

theorem unparseable_response_total_differs:
  "totalAmount (processReceiptImage ve_unparseable ''1704067200000'' ''file:///receipt.jpg'')
     = Some (25 / 2)
 \<and> items (processReceiptImage ve_unparseable ''1704067200000'' ''file:///receipt.jpg'')
     = Some [\<lparr>id_item = ''1704067200000-0'', name = ''Item (please edit)'', quantity = 1,
               price = 0, category_item = Some ''other''\<rparr>]
 \<and> newest_total (backend_after (addReceipt env0
       (processReceiptImage ve_unparseable ''1704067200000'' ''file:///receipt.jpg'')
       empty_web empty_store)) = Some (25 / 2)"
  by code_simp

text \<open>
  C5, amended. A response that parses and validates and whose items are all filtered
  out yields a receipt with exactly one item, named ``Purchase'', of quantity 1, whose
  price is the receipt's \<^verbatim>\<open>totalAmount\<close>. The fallback record of a missing key or of a
  failed image read or model call yields exactly one item of quantity 1 and price 0,
  with \<^verbatim>\<open>totalAmount\<close> 0. A response that does not parse, or whose validation raises,
  yields exactly one item of quantity 1 and price 0; its total may come from the text.
  In every case the receipt has at least one item.
\<close>

theorem zero_item_extraction_one_item:
  "(api_key ve \<and> image_base64 ve = Inr img \<and> response_text ve = Inr txt
      \<and> JSON_parse ve (clean_response txt) = Some j \<and> validate_extracted ve j = Inr x
      \<and> kept_items j = Inr [] \<longrightarrow>
      (\<exists>it. items (processReceiptImage ve stamp uri) = Some [it] \<and> name it = ''Purchase''
          \<and> quantity it = 1
          \<and> totalAmount (processReceiptImage ve stamp uri) = Some (price it)))
 \<and> (\<not> api_key ve \<or> isl (image_base64 ve) \<or> isl (response_text ve) \<longrightarrow>
      (\<exists>it. items (processReceiptImage ve stamp uri) = Some [it] \<and> quantity it = 1
          \<and> price it = 0 \<and> totalAmount (processReceiptImage ve stamp uri) = Some 0))
 \<and> (api_key ve \<and> image_base64 ve = Inr img \<and> response_text ve = Inr txt
      \<and> (JSON_parse ve (clean_response txt) = None
          \<or> (\<exists>j' err. JSON_parse ve (clean_response txt) = Some j'
                \<and> validate_extracted ve j' = Inl err)) \<longrightarrow>
      (\<exists>it. items (processReceiptImage ve stamp uri) = Some [it] \<and> quantity it = 1
          \<and> price it = 0))
 \<and> (\<exists>its. items (processReceiptImage ve stamp uri) = Some its \<and> its \<noteq> [])"
proof (intro conjI impI)
  assume a: "api_key ve \<and> image_base64 ve = Inr img \<and> response_text ve = Inr txt
      \<and> JSON_parse ve (clean_response txt) = Some j \<and> validate_extracted ve j = Inr x
      \<and> kept_items j = Inr []"
  then have "extractReceiptData ve = x"
    by (simp add: extractReceiptData_def)
  moreover from a have "items_x x = [\<lparr>name_x = ''Purchase'', price_x = totalAmount_x x,
      quantity_x = 1, category_x = ''other''\<rparr>]"
    by (blast intro: validate_no_items)
  ultimately show "\<exists>it. items (processReceiptImage ve stamp uri) = Some [it]
      \<and> name it = ''Purchase'' \<and> quantity it = 1
      \<and> totalAmount (processReceiptImage ve stamp uri) = Some (price it)"
    by (simp add: processReceiptImage_fields)
next
  assume "\<not> api_key ve \<or> isl (image_base64 ve) \<or> isl (response_text ve)"
  then have "extractReceiptData ve = createFallbackReceiptData ve"
    by (auto simp: extractReceiptData_def isl_def split: sum.splits)
  then show "\<exists>it. items (processReceiptImage ve stamp uri) = Some [it] \<and> quantity it = 1
      \<and> price it = 0 \<and> totalAmount (processReceiptImage ve stamp uri) = Some 0"
    by (simp add: processReceiptImage_fields fallback_items)
next
  assume "api_key ve \<and> image_base64 ve = Inr img \<and> response_text ve = Inr txt
      \<and> (JSON_parse ve (clean_response txt) = None
          \<or> (\<exists>j' err. JSON_parse ve (clean_response txt) = Some j'
                \<and> validate_extracted ve j' = Inl err))"
  then have "extractReceiptData ve = recover_from_text ve txt"
    by (auto simp: extractReceiptData_def)
  then show "\<exists>it. items (processReceiptImage ve stamp uri) = Some [it] \<and> quantity it = 1
      \<and> price it = 0"
    by (simp add: processReceiptImage_fields recover_items fallback_items)
next
  have "items_x (extractReceiptData ve) \<noteq> []"
    by (auto simp: extractReceiptData_def recover_items fallback_items validate_some_item
          split: sum.splits option.splits)
  then show "\<exists>its. items (processReceiptImage ve stamp uri) = Some its \<and> its \<noteq> []"
    by (simp add: processReceiptImage_fields)
qed

theorem zero_item_extraction_one_item_witness:
  "api_key ve_no_items \<and> image_base64 ve_no_items = Inr ''AAAA''
 \<and> kept_items (JObj [(''merchantName'', JStr ''Shop''), (''totalAmount'', JNum 7),
                      (''items'', JArr [])]) = Inr []
 \<and> items (processReceiptImage ve_no_items ''1704067200000'' ''file:///receipt.jpg'')
     = Some [\<lparr>id_item = ''1704067200000-0'', name = ''Purchase'', quantity = 1, price = 7,
               category_item = Some ''other''\<rparr>]
 \<and> totalAmount (processReceiptImage ve_no_items ''1704067200000'' ''file:///receipt.jpg'') = Some 7
 \<and> \<not> api_key ve_no_key
 \<and> items (processReceiptImage ve_no_key ''1704067200000'' ''file:///receipt.jpg'')
     = Some [\<lparr>id_item = ''1704067200000-0'', name = ''Item (please edit)'', quantity = 1,
               price = 0, category_item = Some ''other''\<rparr>]
 \<and> totalAmount (processReceiptImage ve_no_key ''1704067200000'' ''file:///receipt.jpg'') = Some 0
 \<and> JSON_parse ve_unparseable (clean_response ''Total: 12.50'') = None
 \<and> map_option (map price)
      (items (processReceiptImage ve_unparseable ''1704067200000'' ''file:///receipt.jpg''))
     = Some [0]"
proof -
  let ?j = "JObj [(''merchantName'', JStr ''Shop''), (''totalAmount'', JNum 7), (''items'', JArr [])]"
  let ?txt = "''{\"merchantName\":\"Shop\",\"totalAmount\":7,\"items\":[]}''"
  have a: "api_key ve_no_items \<and> image_base64 ve_no_items = Inr ''AAAA''
      \<and> response_text ve_no_items = Inr ?txt
      \<and> JSON_parse ve_no_items (clean_response ?txt) = Some ?j
      \<and> validate_extracted ve_no_items ?j = Inr (extractReceiptData ve_no_items)
      \<and> kept_items ?j = Inr []"
    by code_simp
  have b: "\<not> api_key ve_no_key"
    by code_simp
  have c: "api_key ve_unparseable \<and> image_base64 ve_unparseable = Inr ''AAAA''
      \<and> response_text ve_unparseable = Inr ''Total: 12.50''
      \<and> JSON_parse ve_unparseable (clean_response ''Total: 12.50'') = None"
    by code_simp
  have d: "items (processReceiptImage ve_no_items ''1704067200000'' ''file:///receipt.jpg'')
     = Some [\<lparr>id_item = ''1704067200000-0'', name = ''Purchase'', quantity = 1, price = 7,
               category_item = Some ''other''\<rparr>]"
    "items (processReceiptImage ve_no_key ''1704067200000'' ''file:///receipt.jpg'')
     = Some [\<lparr>id_item = ''1704067200000-0'', name = ''Item (please edit)'', quantity = 1,
               price = 0, category_item = Some ''other''\<rparr>]"
    by code_simp+
  from a d(1)
    zero_item_extraction_one_item [of ve_no_items "''AAAA''" ?txt ?j
      "extractReceiptData ve_no_items" "''1704067200000''" "''file:///receipt.jpg''"]
  have 1: "totalAmount (processReceiptImage ve_no_items ''1704067200000'' ''file:///receipt.jpg'')
      = Some 7"
    by auto
  from b d(2)
    zero_item_extraction_one_item [of ve_no_key _ _ _ _ "''1704067200000''" "''file:///receipt.jpg''"]
  have 2: "totalAmount (processReceiptImage ve_no_key ''1704067200000'' ''file:///receipt.jpg'')
      = Some 0"
    by auto
  from c
    zero_item_extraction_one_item [of ve_unparseable "''AAAA''" "''Total: 12.50''" _ _
      "''1704067200000''" "''file:///receipt.jpg''"]
  have 3: "map_option (map price)
      (items (processReceiptImage ve_unparseable ''1704067200000'' ''file:///receipt.jpg''))
     = Some [0]"
    by auto
  from a b c d 1 2 3 show ?thesis
    by simp
qed

end
